theory Spec2Isabelle
  imports Main "HOL-Library.Word"
begin

section \<open>The XDPoS v1 engine (consensus/XDPoS/engines/engine_v1/engine.go)\<close>

subsection \<open>Data\<close>

type_synonym byte = "8 word"
type_synonym uint64 = "64 word"

text \<open>
  \<open>common.Address\<close> is a 20-byte array and \<open>common.Hash\<close> a 32-byte array; both are
  byte lists here, compared with \<open>=\<close> as Go compares arrays.
\<close>

type_synonym address = "byte list"
type_synonym hash = "byte list"

text \<open>
  The errors the engine returns. A run-time panic of the Go code (a nil dereference, a
  slice bound, an integer division by zero, a negative \<open>make\<close> length) is the value
  \<open>Panic\<close>, and a call that blocks or loops for ever is \<open>NoReturn\<close>; errors made on the
  spot with \<open>errors.New\<close> or \<open>fmt.Errorf\<close>, and the errors of the hooks and of the crypto
  library, are \<open>ErrOther\<close> with their message.
\<close>

datatype error =
    ErrUnknownBlock
  | ErrNoValidatorSignature
  | ErrFutureBlock
  | ErrInvalidCheckpointBeneficiary
  | ErrInvalidVote
  | ErrInvalidCheckpointVote
  | ErrMissingVanity
  | ErrMissingSignature
  | ErrExtraSigners
  | ErrInvalidCheckpointSigners
  | ErrInvalidCheckpointPenalties
  | ErrInvalidMixDigest
  | ErrInvalidUncleHash
  | ErrUnknownAncestor
  | ErrInvalidTimestamp
  | ErrInvalidDifficulty
  | ErrUnauthorized
  | ErrFailValidatorSignature
  | ErrFailedDoubleValidation
  | ErrWaitTransactions
  | ErrOther string
  | Panic
  | NoReturn

text \<open>A panic or a call that never returns is no error value: no caller can test it.\<close>

definition abnormal :: "error \<Rightarrow> bool" where
  "abnormal e = (e = Panic \<or> e = NoReturn)"

text \<open>
  \<open>types.Header\<close>, with the fields engine.go reads. \<open>Number\<close> is a \<open>*big.Int\<close> that the
  code tests against nil, so it is optional; \<open>Difficulty\<close> and \<open>Time\<close> are big integers.
\<close>

record header =
  ParentHash :: hash
  UncleHash :: hash
  Coinbase :: address
  Root :: hash
  TxHash :: hash
  ReceiptHash :: hash
  Bloom :: "byte list"
  Difficulty :: int
  Number :: "int option"
  GasLimit :: uint64
  GasUsed :: uint64
  Time :: int
  Extra :: "byte list"
  MixDigest :: hash
  Nonce :: "byte list"
  Validators :: "byte list"
  Validator :: "byte list"
  Penalties :: "byte list"

text \<open>
  \<open>big.Int.Uint64\<close> and \<open>big.Int.Int64\<close> of the Go standard library: the low 64 bits of
  the absolute value, negated for \<open>Int64\<close> when the number is negative.
\<close>

definition Uint64 :: "int \<Rightarrow> uint64" where
  "Uint64 x = word_of_int \<bar>x\<bar>"

definition Int64 :: "int \<Rightarrow> int" where
  "Int64 x = (let v = (word_of_int \<bar>x\<bar> :: uint64) in sint (if x < 0 then - v else v))"

text \<open>Go's \<open>%\<close> and \<open>/\<close> on \<open>int\<close> truncate towards zero.\<close>

definition go_rem :: "int \<Rightarrow> int \<Rightarrow> int" where
  "go_rem a b = sgn a * (\<bar>a\<bar> mod \<bar>b\<bar>)"

definition go_quot :: "int \<Rightarrow> int \<Rightarrow> int" where
  "go_quot a b = sgn a * sgn b * (\<bar>a\<bar> div \<bar>b\<bar>)"

text \<open>
  Modelled from the spec: the constants \<open>ExtraVanity\<close>, \<open>ExtraSeal\<close>, \<open>NonceAuthVote\<close>,
  \<open>NonceDropVote\<close> of package utils and \<open>AddressLength\<close>, \<open>LimitPenaltyEpoch\<close> of package common,
  which are declared outside engine.go. The extra-data is \<open>vanity (32) \<parallel> signer list \<parallel> seal (65)\<close>, an
  address has 20 bytes, the nonce of a vote is \<open>0xff..ff\<close> (authorize) or \<open>0x00..00\<close>
  (drop), and the penalties of the 4 epochs before a checkpoint are removed.
\<close>

definition ExtraVanity :: nat where
  "ExtraVanity = 32"

definition ExtraSeal :: nat where
  "ExtraSeal = 65"

definition AddressLength :: nat where
  "AddressLength = 20"

definition NonceAuthVote :: "byte list" where
  "NonceAuthVote = replicate 8 0xff"

definition NonceDropVote :: "byte list" where
  "NonceDropVote = replicate 8 0"

definition LimitPenaltyEpoch :: nat where
  "LimitPenaltyEpoch = 4"

text \<open>The zero values \<open>common.Address{}\<close> and \<open>common.Hash{}\<close>.\<close>

definition zeroAddress :: address where
  "zeroAddress = replicate 20 0"

definition zeroHash :: hash where
  "zeroHash = replicate 32 0"

text \<open>
  \<open>SnapshotV1\<close>: the signer set (a Go map used as a set), the recent signers by block
  number (a Go map; an association list here, whose order stands for the order in which
  \<open>range\<close> happens to visit the map), and the signature cache the snapshot was made with.
\<close>

record SnapshotV1 =
  Signers :: "address set"
  Recents :: "(uint64 \<times> address) list"
  sigcache :: "hash \<rightharpoonup> address"

text \<open>\<open>params.XDPoSConfig\<close>.\<close>

record XDPoSConfig =
  Epoch :: uint64
  Period :: uint64
  Gap :: uint64

text \<open>\<open>types.Block\<close>: its header, its transactions, and what \<open>Penalties()\<close> returns (nil or bytes).\<close>

record block =
  bHeader :: header
  bTransactions :: "byte list list"
  bPenalties :: "byte list option"

text \<open>
  \<open>consensus.ChainReader\<close>: the reads of headers and blocks (nil is \<open>None\<close>) and what the
  engine asks of \<open>chain.Config()\<close>: the XDPoS parameters, \<open>IsTIPSigning\<close>, and the result of
  \<open>misc.VerifyForkHashes\<close> on a header.
\<close>

record ChainReader =
  GetHeader :: "hash \<Rightarrow> uint64 \<Rightarrow> header option"
  GetHeaderByNumber :: "uint64 \<Rightarrow> header option"
  GetBlock :: "hash \<Rightarrow> uint64 \<Rightarrow> block option"
  ConfigXDPoS :: XDPoSConfig
  IsTIPSigning :: "int option \<Rightarrow> bool"
  VerifyForkHashes :: "header \<Rightarrow> error option"

text \<open>The values handed to \<open>rlp.Encode\<close>: byte strings, \<open>*big.Int\<close> (nil allowed), \<open>uint64\<close>.\<close>

datatype rlp = RBytes "byte list" | RBig "int option" | RUint uint64

text \<open>
  What engine.go calls in other packages, taken as given: the crypto, rlp and types
  functions (\<open>Keccak256\<close>, \<open>Ecrecover\<close>, \<open>rlpEncode\<close>, \<open>headerHash\<close> for \<open>header.Hash()\<close>),
  the helpers and constants of the common and utils packages, the global \<open>IsTestnet\<close>, and
  the clock (\<open>time.Now().Unix()\<close>).
\<close>

record Env =
  Keccak256 :: "byte list \<Rightarrow> byte list"
  Ecrecover :: "byte list \<Rightarrow> byte list \<Rightarrow> error + byte list"
  rlpEncode :: "rlp list \<Rightarrow> byte list"
  headerHash :: "header \<Rightarrow> hash"
  IsTestnet :: bool
  now :: int
  EmptyUncleHash :: hash
  IgnoreSignerCheckBlock :: uint64
  EpocBlockRandomize :: uint64
  ExtractAddressToBytes :: "address list \<Rightarrow> byte list"
  ExtractAddressFromBytes :: "byte list \<Rightarrow> address list"
  RemoveItemFromArray :: "address list \<Rightarrow> address list \<Rightarrow> address list"
  CompareSignersLists :: "address list \<Rightarrow> address list \<Rightarrow> bool"
  ExtractValidatorsFromBytes :: "byte list \<Rightarrow> int list"
  GetM1M2 :: "address list \<Rightarrow> int list \<Rightarrow> header \<Rightarrow> error + (address \<rightharpoonup> address)"
  GetSigners :: "SnapshotV1 \<Rightarrow> address list"

text \<open>
  The engine \<open>XDPoS_v1\<close>: its configuration, the caches (an LRU cache read with \<open>Get\<close> is a
  partial map), the signer and its signing function, the hooks (a nil hook is \<open>None\<close>), and
  the result of the method \<open>snapshot\<close>, whose helpers live in snapshot.go.
\<close>

record XDPoS_v1 =
  config :: XDPoSConfig
  signatures :: "hash \<rightharpoonup> address"
  validatorSignatures :: "hash \<rightharpoonup> address"
  c_signer :: address
  signFn :: "(address \<Rightarrow> byte list \<Rightarrow> error + byte list) option"
  HookPenalty :: "(ChainReader \<Rightarrow> uint64 \<Rightarrow> error + address list) option"
  HookPenaltyTIPSigning :: "(ChainReader \<Rightarrow> header \<Rightarrow> address list \<Rightarrow> error + address list) option"
  HookVerifyMNs :: "(header \<Rightarrow> address list \<Rightarrow> error option) option"
  HookGetSignersFromContract :: "(hash \<Rightarrow> error + address list) option"
  snapshot :: "ChainReader \<Rightarrow> uint64 \<Rightarrow> hash \<Rightarrow> header list \<Rightarrow> error + SnapshotV1"

subsection \<open>Signing hash and signer recovery\<close>

text \<open>
  \<open>sigHash\<close>: Keccak-256 of the RLP encoding of the header fields, the extra-data without
  its last 65 bytes. The slice \<open>header.Extra[:len(header.Extra)-65]\<close> panics when the
  extra-data is shorter than 65 bytes.
\<close>

definition sigHash :: "Env \<Rightarrow> header \<Rightarrow> error + hash" where
  "sigHash E h =
     (if length (Extra h) < 65 then Inl Panic
      else Inr (Keccak256 E (rlpEncode E
          [RBytes (ParentHash h), RBytes (UncleHash h), RBytes (Coinbase h), RBytes (Root h),
           RBytes (TxHash h), RBytes (ReceiptHash h), RBytes (Bloom h),
           RBig (Some (Difficulty h)), RBig (Number h), RUint (GasLimit h),
           RUint (GasUsed h), RBig (Some (Time h)),
           RBytes (take (length (Extra h) - 65) (Extra h)),
           RBytes (MixDigest h), RBytes (Nonce h)])))"

text \<open>
  The address of a recovered public key: \<open>copy(signer[:], Keccak256(pubkey[1:])[12:])\<close>
  into a zeroed 20-byte array. Both slices panic when their operand is too short.
\<close>

definition pubkeyAddress :: "Env \<Rightarrow> byte list \<Rightarrow> error + address" where
  "pubkeyAddress E pubkey =
     (if length pubkey < 1 then Inl Panic
      else if length (Keccak256 E (drop 1 pubkey)) < 12 then Inl Panic
      else Inr (take 20 (drop 12 (Keccak256 E (drop 1 pubkey)) @ replicate 20 0)))"

definition ecrecover :: "Env \<Rightarrow> header \<Rightarrow> (hash \<rightharpoonup> address) \<Rightarrow> error + address" where
  "ecrecover E h cache =
     (case cache (headerHash E h) of
        Some a \<Rightarrow> Inr a
      | None \<Rightarrow>
          if length (Extra h) < ExtraSeal then Inl ErrMissingSignature
          else (case sigHash E h of
            Inl e \<Rightarrow> Inl e
          | Inr sh \<Rightarrow>
              (case Ecrecover E sh (drop (length (Extra h) - ExtraSeal) (Extra h)) of
                 Inl e \<Rightarrow> Inl e
               | Inr pubkey \<Rightarrow> pubkeyAddress E pubkey)))"

text \<open>
  \<open>RecoverValidator\<close>: the same recovery from the 65-byte \<open>header.Validator\<close>, with the
  cache \<open>validatorSignatures\<close>.
\<close>

definition RecoverValidator :: "Env \<Rightarrow> XDPoS_v1 \<Rightarrow> header \<Rightarrow> error + address" where
  "RecoverValidator E c h =
     (case validatorSignatures c (headerHash E h) of
        Some a \<Rightarrow> Inr a
      | None \<Rightarrow>
          if length (Validator h) \<noteq> ExtraSeal then Inl ErrFailValidatorSignature
          else (case sigHash E h of
            Inl e \<Rightarrow> Inl e
          | Inr sh \<Rightarrow>
              (case Ecrecover E sh (Validator h) of
                 Inl e \<Rightarrow> Inl e
               | Inr pubkey \<Rightarrow> pubkeyAddress E pubkey)))"

subsection \<open>Masternodes and the leader schedule\<close>

fun positionFrom :: "int \<Rightarrow> address list \<Rightarrow> address \<Rightarrow> int" where
  "positionFrom i [] x = -1"
| "positionFrom i (item # list) x = (if item = x then i else positionFrom (i + 1) list x)"

definition position :: "address list \<Rightarrow> address \<Rightarrow> int" where
  "position list x = positionFrom 0 list x"

text \<open>
  The package function \<open>GetMasternodesFromCheckpointHeader\<close>:
  \<open>(len(Extra) - 32 - 65) / 20\<close> addresses are cut out of the extra-data after the vanity.
  The count is a Go \<open>int\<close> division; \<open>make\<close> panics when it is negative.
\<close>

definition GetMasternodesFromCheckpointHeader :: "header \<Rightarrow> error + address list" where
  "GetMasternodesFromCheckpointHeader h =
     (if go_quot (int (length (Extra h)) - int ExtraVanity - int ExtraSeal) (int AddressLength) < 0
      then Inl Panic
      else Inr (map (\<lambda>i. take AddressLength (drop (ExtraVanity + i * AddressLength) (Extra h)))
                 [0 ..< nat (go_quot (int (length (Extra h)) - int ExtraVanity - int ExtraSeal)
                               (int AddressLength))]))"

text \<open>The method of the same name does the same, and gives the empty list for a nil header.\<close>

definition c_GetMasternodesFromCheckpointHeader :: "header option \<Rightarrow> error + address list" where
  "c_GetMasternodesFromCheckpointHeader preCheckpointHeader =
     (case preCheckpointHeader of
        None \<Rightarrow> Inr []
      | Some h \<Rightarrow> GetMasternodesFromCheckpointHeader h)"

definition GetMasternodes :: "XDPoS_v1 \<Rightarrow> ChainReader \<Rightarrow> header \<Rightarrow> error + address list" where
  "GetMasternodes c chain h =
     (case Number h of
        None \<Rightarrow> Inl Panic
      | Some num \<Rightarrow>
          if Epoch (config c) = 0 then Inl Panic
          else if Uint64 num mod Epoch (config c) = 0
          then c_GetMasternodesFromCheckpointHeader (Some h)
          else c_GetMasternodesFromCheckpointHeader
                 (GetHeaderByNumber chain (Uint64 num - Uint64 num mod Epoch (config c))))"

definition whoIsCreator :: "Env \<Rightarrow> SnapshotV1 \<Rightarrow> header \<Rightarrow> error + address" where
  "whoIsCreator E snap h =
     (case Number h of
        None \<Rightarrow> Inl Panic
      | Some num \<Rightarrow>
          if Uint64 num = 0 then Inl (ErrOther ''Don't take block 0'')
          else ecrecover E h (sigcache snap))"

text \<open>\<open>GetSnapshot\<close>: the snapshot at the header itself.\<close>

definition GetSnapshot :: "Env \<Rightarrow> XDPoS_v1 \<Rightarrow> ChainReader \<Rightarrow> header \<Rightarrow> error + SnapshotV1" where
  "GetSnapshot E c chain h =
     (case Number h of
        None \<Rightarrow> Inl Panic
      | Some num \<Rightarrow> snapshot c chain (Uint64 num) (headerHash E h) [])"

text \<open>
  \<open>YourTurn\<close> returns \<open>(len, preIndex, curIndex, ok, err)\<close>; the four values are returned
  with an error too (\<open>calcDifficulty\<close> reads them), so the error is the last component and
  only a panic is \<open>Inl\<close>.
\<close>

definition YourTurn ::
  "Env \<Rightarrow> XDPoS_v1 \<Rightarrow> ChainReader \<Rightarrow> header \<Rightarrow> address
     \<Rightarrow> error + (int \<times> int \<times> int \<times> bool \<times> error option)" where
  "YourTurn E c chain parent signer =
     (case GetMasternodes c chain parent of
        Inl e \<Rightarrow> Inl e
      | Inr masternodes \<Rightarrow>
         (case GetSnapshot E c chain parent of
            Inl err \<Rightarrow> if abnormal err then Inl err else Inr (0, -1, -1, False, Some err)
          | Inr snap \<Rightarrow>
             if length masternodes = 0
             then Inr (0, -1, -1, False, Some (ErrOther ''Masternodes not found''))
             else (case Number parent of
                None \<Rightarrow> Inl Panic
              | Some num \<Rightarrow>
                 (case (if Uint64 num \<noteq> 0
                        then (case whoIsCreator E snap parent of
                                Inl e \<Rightarrow> Inl e
                              | Inr pre \<Rightarrow> Inr (position masternodes pre))
                        else Inr (-1)) of
                    Inl err \<Rightarrow> if abnormal err then Inl err else Inr (0, 0, 0, False, Some err)
                  | Inr preIndex \<Rightarrow>
                      if go_rem (preIndex + 1) (int (length masternodes)) = position masternodes signer
                      then Inr (int (length masternodes), preIndex, position masternodes signer,
                                True, None)
                      else Inr (int (length masternodes), preIndex, position masternodes signer,
                                False, None)))))"

text \<open>
  Modelled from the spec: the function \<open>utils.Hop\<close>, which is declared outside engine.go.
  The specification describes \<open>hop\<close> as the forward distance modulo the set size; the
  distance is measured from the slot after the previous creator, so that the on-turn signer
  is at distance 0 and gets the difficulty \<open>|masternodes|\<close>.
\<close>

definition Hop :: "int \<Rightarrow> int \<Rightarrow> int \<Rightarrow> int" where
  "Hop len pre cur = (cur - (pre + 1)) mod len"

definition calcDifficulty :: "Env \<Rightarrow> XDPoS_v1 \<Rightarrow> ChainReader \<Rightarrow> header \<Rightarrow> address \<Rightarrow> error + int" where
  "calcDifficulty E c chain parent signer =
     (case YourTurn E c chain parent signer of
        Inl e \<Rightarrow> Inl e
      | Inr (len, preIndex, curIndex, _, Some err) \<Rightarrow> Inr (len + curIndex - preIndex)
      | Inr (len, preIndex, curIndex, _, None) \<Rightarrow> Inr (len - Hop len preIndex curIndex))"



subsection \<open>Double validation\<close>

text \<open>
  \<open>GetM1M2FromCheckpointHeader\<close>; \<open>utils.ExtractValidatorsFromBytes\<close> and \<open>utils.GetM1M2\<close>
  are taken from the environment.
\<close>

definition GetM1M2FromCheckpointHeader ::
  "Env \<Rightarrow> header \<Rightarrow> header \<Rightarrow> error + (address \<rightharpoonup> address)" where
  "GetM1M2FromCheckpointHeader E checkpointHeader currentHeader =
     (case Number checkpointHeader of
        None \<Rightarrow> Inl Panic
      | Some num \<Rightarrow>
          if EpocBlockRandomize E = 0 then Inl Panic
          else if Uint64 num mod EpocBlockRandomize E \<noteq> 0
          then Inl (ErrOther ''This block is not checkpoint block epoc.'')
          else (case GetMasternodesFromCheckpointHeader checkpointHeader of
                  Inl e \<Rightarrow> Inl e
                | Inr masternodes \<Rightarrow>
                    GetM1M2 E masternodes
                      (ExtractValidatorsFromBytes E (Validators checkpointHeader)) currentHeader))"

text \<open>\<open>GetValidator\<close>: a creator missing from the map gets the zero address, as a Go map read does.\<close>

definition GetValidator :: "Env \<Rightarrow> XDPoS_v1 \<Rightarrow> address \<Rightarrow> ChainReader \<Rightarrow> header \<Rightarrow> error + address" where
  "GetValidator E c creator chain h =
     (case Number h of
        None \<Rightarrow> Inl Panic
      | Some num \<Rightarrow>
          if Epoch (config c) = 0 then Inl Panic
          else if Uint64 num - Uint64 num mod Epoch (config c) = 0 then Inr zeroAddress
          else (case (case GetHeaderByNumber chain (Uint64 num - Uint64 num mod Epoch (config c)) of
                        Some cp \<Rightarrow> Inr cp
                      | None \<Rightarrow>
                          if Uint64 num mod Epoch (config c) = 0 then Inr h
                          else Inl (ErrOther ''couldn't find checkpoint header'')) of
                  Inl e \<Rightarrow> Inl e
                | Inr cpHeader \<Rightarrow>
                    (case GetM1M2FromCheckpointHeader E cpHeader h of
                       Inl e \<Rightarrow> Inl e
                     | Inr m \<Rightarrow> Inr (case m creator of None \<Rightarrow> zeroAddress | Some v \<Rightarrow> v))))"

subsection \<open>Verifying the seal\<close>

text \<open>
  The loop of \<open>verifySeal\<close> over \<open>snap.Recents\<close>: it returns \<open>ErrUnauthorized\<close> (here
  \<open>True\<close>) at the first entry of the creator with \<open>seen > number - 2\<close>, off the epoch
  boundaries. The subtraction is a \<open>uint64\<close> one.
\<close>

fun recentlySigned :: "(uint64 \<times> address) list \<Rightarrow> address \<Rightarrow> uint64 \<Rightarrow> uint64 \<Rightarrow> bool" where
  "recentlySigned [] creator number epoch = False"
| "recentlySigned ((seen, recent) # rest) creator number epoch =
     (if recent = creator \<and> seen > number - 2 \<and> number mod epoch \<noteq> 0 then True
      else recentlySigned rest creator number epoch)"

text \<open>
  \<open>verifySeal\<close> returns an \<open>error\<close>; nil is \<open>None\<close>. The parent is the last of \<open>parents\<close> or
  read from the chain; \<open>calcDifficulty\<close> dereferences it, which panics on nil.
\<close>

definition verifySeal ::
  "Env \<Rightarrow> XDPoS_v1 \<Rightarrow> ChainReader \<Rightarrow> header \<Rightarrow> header list \<Rightarrow> bool \<Rightarrow> error option" where
  "verifySeal E c chain h parents fullVerify =
     (case Number h of
        None \<Rightarrow> Some Panic
      | Some num \<Rightarrow>
         if Uint64 num = 0 then Some ErrUnknownBlock
         else (case snapshot c chain (Uint64 num - 1) (ParentHash h) parents of
            Inl err \<Rightarrow> Some err
          | Inr snap \<Rightarrow>
             (case ecrecover E h (signatures c) of
                Inl err \<Rightarrow> Some err
              | Inr creator \<Rightarrow>
                 (case (if parents \<noteq> [] then Some (last parents)
                        else GetHeader chain (ParentHash h) (Uint64 num - 1)) of
                    None \<Rightarrow> Some Panic
                  | Some parent \<Rightarrow>
                     (case calcDifficulty E c chain parent creator of
                        Inl err \<Rightarrow> Some err
                      | Inr difficulty \<Rightarrow>
                         if Int64 (Difficulty h) \<noteq> Int64 difficulty then Some ErrInvalidDifficulty
                         else (case GetMasternodes c chain h of
                            Inl err \<Rightarrow> Some err
                          | Inr masternodes \<Rightarrow>
                             if creator \<notin> Signers snap \<and> creator \<notin> set masternodes
                             then Some ErrUnauthorized
                             else if length masternodes > 1
                                  \<and> recentlySigned (Recents snap) creator (Uint64 num) (Epoch (config c))
                             then Some ErrUnauthorized
                             else if Uint64 num > Epoch (config c) \<and> fullVerify
                             then (case RecoverValidator E c h of
                                Inl err \<Rightarrow> Some err
                              | Inr validator \<Rightarrow>
                                 (case GetValidator E c creator chain h of
                                    Inl err \<Rightarrow> Some err
                                  | Inr assignedValidator \<Rightarrow>
                                     if validator \<noteq> assignedValidator
                                     then Some ErrFailedDoubleValidation
                                     else None))
                             else None))))))"

subsection \<open>Checkpoint signers\<close>

text \<open>
  \<open>removePenaltiesFromBlock\<close>: a nil header or block panics at its first use; a nil
  \<open>Penalties()\<close> leaves the list as it is.
\<close>

definition removePenaltiesFromBlock ::
  "Env \<Rightarrow> ChainReader \<Rightarrow> address list \<Rightarrow> uint64 \<Rightarrow> error + address list" where
  "removePenaltiesFromBlock E chain masternodes epochNumber =
     (if epochNumber \<le> 0 then Inr masternodes
      else (case GetHeaderByNumber chain epochNumber of
         None \<Rightarrow> Inl Panic
       | Some h \<Rightarrow>
          (case GetBlock chain (headerHash E h) epochNumber of
             None \<Rightarrow> Inl Panic
           | Some b \<Rightarrow>
              (case bPenalties b of
                 None \<Rightarrow> Inr masternodes
               | Some penalties \<Rightarrow>
                   Inr (RemoveItemFromArray E masternodes (ExtractAddressFromBytes E penalties))))))"

text \<open>
  The loop \<open>for i := 1; i <= common.LimitPenaltyEpoch; i++\<close> of \<open>checkSignersOnCheckpoint\<close>,
  over the values of \<open>i\<close>; \<open>uint64(i) * Epoch\<close> wraps.
\<close>

fun removePenaltiesLoop ::
  "Env \<Rightarrow> ChainReader \<Rightarrow> uint64 \<Rightarrow> uint64 \<Rightarrow> address list \<Rightarrow> nat list \<Rightarrow> error + address list" where
  "removePenaltiesLoop E chain epoch number signers [] = Inr signers"
| "removePenaltiesLoop E chain epoch number signers (i # is) =
     (if number > of_nat i * epoch
      then (case removePenaltiesFromBlock E chain signers (number - of_nat i * epoch) of
              Inl e \<Rightarrow> Inl e
            | Inr signers' \<Rightarrow> removePenaltiesLoop E chain epoch number signers' is)
      else removePenaltiesLoop E chain epoch number signers is)"

text \<open>
  \<open>checkSignersOnCheckpoint\<close>. Calling a nil hook panics; the slice
  \<open>header.Extra[ExtraVanity:len(header.Extra)-ExtraSeal]\<close> panics when its bounds cross.
\<close>

definition checkSignersOnCheckpoint ::
  "Env \<Rightarrow> XDPoS_v1 \<Rightarrow> ChainReader \<Rightarrow> header \<Rightarrow> address list \<Rightarrow> error option" where
  "checkSignersOnCheckpoint E c chain h signers =
     (case Number h of
        None \<Rightarrow> Some Panic
      | Some num \<Rightarrow>
         if Uint64 num = IgnoreSignerCheckBlock E then None
         else (case (if HookPenalty c \<noteq> None \<or> HookPenaltyTIPSigning c \<noteq> None
                     then (case (if IsTIPSigning chain (Number h)
                                 then (case HookPenaltyTIPSigning c of
                                         None \<Rightarrow> Inl Panic
                                       | Some hook \<Rightarrow> hook chain h signers)
                                 else (case HookPenalty c of
                                         None \<Rightarrow> Inl Panic
                                       | Some hook \<Rightarrow> hook chain (Uint64 num))) of
                             Inl err \<Rightarrow> Inl err
                           | Inr penPenalties \<Rightarrow>
                               if Penalties h \<noteq> ExtractAddressToBytes E penPenalties
                               then Inl ErrInvalidCheckpointPenalties
                               else Inr penPenalties)
                     else Inr []) of
            Inl err \<Rightarrow> Some err
          | Inr penPenalties \<Rightarrow>
             (case removePenaltiesLoop E chain (Epoch (config c)) (Uint64 num)
                     (RemoveItemFromArray E signers penPenalties) [1 ..< LimitPenaltyEpoch + 1] of
                Inl err \<Rightarrow> Some err
              | Inr signers' \<Rightarrow>
                 if length (Extra h) < ExtraVanity + ExtraSeal then Some Panic
                 else if \<not> CompareSignersLists E
                            (ExtractAddressFromBytes E
                               (take (length (Extra h) - ExtraSeal - ExtraVanity)
                                  (drop ExtraVanity (Extra h))))
                            signers'
                 then Some ErrInvalidCheckpointSigners
                 else (case HookVerifyMNs c of
                         None \<Rightarrow> None
                       | Some hook \<Rightarrow> hook h signers'))))"

text \<open>
  The loop of \<open>getSignersFromContract\<close>, \<open>for step := uint64(1); step <= Gap; step++\<close>: each
  step goes to the parent of the header reached. A nil header panics at its next use. The
  counter wraps when \<open>Gap\<close> is the largest \<open>uint64\<close>; the loop then has no exit but a panic,
  and not returning is \<open>None\<close>.
\<close>

partial_function (option) gapLoop ::
  "ChainReader \<Rightarrow> header \<Rightarrow> uint64 \<Rightarrow> uint64 \<Rightarrow> uint64 \<Rightarrow> (error + header) option" where
  "gapLoop chain startGapBlockHeader number gap step =
     (if step \<le> gap
      then (case GetHeader chain (ParentHash startGapBlockHeader) (number - step) of
              None \<Rightarrow> Some (Inl Panic)
            | Some h \<Rightarrow> gapLoop chain h number gap (step + 1))
      else Some (Inr startGapBlockHeader))"

definition getSignersFromContract ::
  "Env \<Rightarrow> XDPoS_v1 \<Rightarrow> ChainReader \<Rightarrow> header \<Rightarrow> error + address list" where
  "getSignersFromContract E c chain checkpointHeader =
     (case Number checkpointHeader of
        None \<Rightarrow> Inl Panic
      | Some num \<Rightarrow>
         (case gapLoop chain checkpointHeader (Uint64 num) (Gap (ConfigXDPoS chain)) 1 of
            None \<Rightarrow> Inl NoReturn
          | Some (Inl e) \<Rightarrow> Inl e
          | Some (Inr startGapBlockHeader) \<Rightarrow>
             (case HookGetSignersFromContract c of
                None \<Rightarrow> Inl Panic
              | Some hook \<Rightarrow>
                 (case hook (headerHash E startGapBlockHeader) of
                    Inl err \<Rightarrow>
                      if abnormal err then Inl err
                      else Inl (ErrOther ''Can't get signers from Smart Contract . Err'')
                  | Inr signers \<Rightarrow> Inr signers))))"

subsection \<open>Verifying a header\<close>

definition verifyCascadingFields ::
  "Env \<Rightarrow> XDPoS_v1 \<Rightarrow> ChainReader \<Rightarrow> header \<Rightarrow> header list \<Rightarrow> bool \<Rightarrow> error option" where
  "verifyCascadingFields E c chain h parents fullVerify =
     (case Number h of
        None \<Rightarrow> Some Panic
      | Some num \<Rightarrow>
         if Uint64 num = 0 then None
         else (case (if parents \<noteq> [] then Some (last parents)
                     else GetHeader chain (ParentHash h) (Uint64 num - 1)) of
            None \<Rightarrow> Some ErrUnknownAncestor
          | Some parent \<Rightarrow>
             (case Number parent of
                None \<Rightarrow> Some Panic
              | Some pnum \<Rightarrow>
                 if Uint64 pnum \<noteq> Uint64 num - 1 \<or> headerHash E parent \<noteq> ParentHash h
                 then Some ErrUnknownAncestor
                 else if Uint64 (Time parent) + Period (config c) > Uint64 (Time h)
                 then Some ErrInvalidTimestamp
                 else if Epoch (config c) = 0 then Some Panic
                 else if Uint64 num mod Epoch (config c) \<noteq> 0
                 then verifySeal E c chain h parents fullVerify
                 else (case snapshot c chain (Uint64 num - 1) (ParentHash h) parents of
                    Inl err \<Rightarrow> Some err
                  | Inr snap \<Rightarrow>
                     (case checkSignersOnCheckpoint E c chain h (GetSigners E snap) of
                        None \<Rightarrow> verifySeal E c chain h parents fullVerify
                      | Some err1 \<Rightarrow>
                         if abnormal err1 then Some err1
                         else (case getSignersFromContract E c chain h of
                            Inl err \<Rightarrow> Some err
                          | Inr signers \<Rightarrow>
                             (case checkSignersOnCheckpoint E c chain h signers of
                                None \<Rightarrow> verifySeal E c chain h parents fullVerify
                              | Some err \<Rightarrow> Some err)))))))"

text \<open>
  \<open>verifyHeader\<close>. On the testnet \<open>fullVerify\<close> is switched off. The clock is read only
  under full verification.
\<close>

definition verifyHeader ::
  "Env \<Rightarrow> XDPoS_v1 \<Rightarrow> ChainReader \<Rightarrow> header \<Rightarrow> header list \<Rightarrow> bool \<Rightarrow> error option" where
  "verifyHeader E c chain h parents fullVerify =
     (case Number h of
        None \<Rightarrow> Some ErrUnknownBlock
      | Some num \<Rightarrow>
         if (fullVerify \<and> \<not> IsTestnet E)
            \<and> Uint64 num > Epoch (config c) \<and> length (Validator h) = 0
         then Some ErrNoValidatorSignature
         else if (fullVerify \<and> \<not> IsTestnet E) \<and> Time h > now E
         then Some ErrFutureBlock
         else if Epoch (config c) = 0 then Some Panic
         else if Uint64 num mod Epoch (config c) = 0 \<and> Coinbase h \<noteq> zeroAddress
         then Some ErrInvalidCheckpointBeneficiary
         else if Nonce h \<noteq> NonceAuthVote \<and> Nonce h \<noteq> NonceDropVote
         then Some ErrInvalidVote
         else if Uint64 num mod Epoch (config c) = 0 \<and> Nonce h \<noteq> NonceDropVote
         then Some ErrInvalidCheckpointVote
         else if length (Extra h) < ExtraVanity
         then Some ErrMissingVanity
         else if length (Extra h) < ExtraVanity + ExtraSeal
         then Some ErrMissingSignature
         else if \<not> Uint64 num mod Epoch (config c) = 0
                 \<and> length (Extra h) - ExtraVanity - ExtraSeal \<noteq> 0
         then Some ErrExtraSigners
         else if Uint64 num mod Epoch (config c) = 0
                 \<and> (length (Extra h) - ExtraVanity - ExtraSeal) mod AddressLength \<noteq> 0
         then Some ErrInvalidCheckpointSigners
         else if MixDigest h \<noteq> zeroHash
         then Some ErrInvalidMixDigest
         else if UncleHash h \<noteq> EmptyUncleHash E
         then Some ErrInvalidUncleHash
         else (case VerifyForkHashes chain h of
                 Some err \<Rightarrow> Some err
               | None \<Rightarrow> verifyCascadingFields E c chain h parents (fullVerify \<and> \<not> IsTestnet E)))"

subsection \<open>Sealing\<close>






subsection \<open>Example inputs\<close>

text \<open>
  Concrete inputs on which the theorems below are run: three addresses, a toy
  environment, and headers whose extra-data holds a signer list and a seal.
\<close>

definition addrA :: address where "addrA = replicate 19 0 @ [1]"
definition addrB :: address where "addrB = replicate 19 0 @ [2]"
definition addrC :: address where "addrC = replicate 19 0 @ [3]"

text \<open>
  The toy crypto: a seal is the signer's address followed by 45 zero bytes, the recovered
  public key is the byte 4 followed by the first 64 bytes of the signature, the hash keeps
  the first 20 bytes of its input as its last 20 bytes, and the encoding strings the byte
  fields together. The hash of a header is made
  of its number.
\<close>

definition sealBy :: "address \<Rightarrow> byte list" where
  "sealBy a = a @ replicate 45 0"

definition numHash :: "int option \<Rightarrow> hash" where
  "numHash n = (case n of None \<Rightarrow> zeroHash | Some k \<Rightarrow> replicate 31 0 @ [word_of_int k])"

definition exEnv :: Env where
  "exEnv = \<lparr> Keccak256 = (\<lambda>bs. replicate 12 0 @ take 20 (bs @ replicate 20 0)),
     Ecrecover = (\<lambda>h sig. if length sig = 65 then Inr (4 # take 64 sig)
                            else Inl (ErrOther ''invalid signature length'')),
     rlpEncode = (\<lambda>xs. concat (map (\<lambda>x. case x of RBytes bs \<Rightarrow> bs | RBig n \<Rightarrow> [] | RUint n \<Rightarrow> []) xs)),
     headerHash = (\<lambda>h. numHash (Number h)),
     IsTestnet = False,
     now = 1000,
     EmptyUncleHash = replicate 32 1,
     IgnoreSignerCheckBlock = 14458500,
     EpocBlockRandomize = 900,
     ExtractAddressToBytes = concat,
     ExtractAddressFromBytes = (\<lambda>bs. map (\<lambda>i. take 20 (drop (20 * i) bs)) [0 ..< length bs div 20]),
     RemoveItemFromArray = (\<lambda>xs ys. filter (\<lambda>x. x \<notin> set ys) xs),
     CompareSignersLists = (\<lambda>xs ys. xs = ys),
     ExtractValidatorsFromBytes = (\<lambda>bs. []),
     GetM1M2 = (\<lambda>ms vs h. Inr (map_of (zip ms (rotate1 ms)))),
     GetSigners = (\<lambda>s. filter (\<lambda>a. a \<in> Signers s) [addrA, addrB, addrC]) \<rparr>"

definition exHeader :: "int \<Rightarrow> int \<Rightarrow> address list \<Rightarrow> address \<Rightarrow> header" where
  "exHeader n d ms sealer =
     \<lparr> ParentHash = numHash (Some (n - 1)), UncleHash = replicate 32 1, Coinbase = zeroAddress,
       Root = [], TxHash = [], ReceiptHash = [], Bloom = [], Difficulty = d, Number = Some n,
       GasLimit = 0, GasUsed = 0, Time = 2 * n, Extra = replicate 32 0 @ concat ms @ sealBy sealer,
       MixDigest = zeroHash, Nonce = NonceDropVote, Validators = [], Validator = [],
       Penalties = [] \<rparr>"

text \<open>
  A chain in which every block is there: the block \<open>n\<close> is sealed by \<open>p\<close> and carries the
  masternodes \<open>ms\<close> in its extra-data when \<open>n\<close> is a multiple of 900. The engine has empty
  caches and no hooks, and its \<open>snapshot\<close> returns the snapshot \<open>s\<close>.
\<close>

definition exBlockAt :: "address list \<Rightarrow> address \<Rightarrow> uint64 \<Rightarrow> header" where
  "exBlockAt ms p n = exHeader (uint n) 1 (if n mod 900 = 0 then ms else []) p"

definition exChain :: "address list \<Rightarrow> address \<Rightarrow> ChainReader" where
  "exChain ms p =
     \<lparr> GetHeader = (\<lambda>h n. Some (exBlockAt ms p n)),
       GetHeaderByNumber = (\<lambda>n. Some (exBlockAt ms p n)),
       GetBlock = (\<lambda>h n. Some \<lparr> bHeader = exBlockAt ms p n, bTransactions = [], bPenalties = None \<rparr>),
       ConfigXDPoS = \<lparr> Epoch = 900, Period = 2, Gap = 2 \<rparr>,
       IsTIPSigning = (\<lambda>n. False),
       VerifyForkHashes = (\<lambda>h. None) \<rparr>"

definition exEngine :: "SnapshotV1 \<Rightarrow> XDPoS_v1" where
  "exEngine s =
     \<lparr> config = \<lparr> Epoch = 900, Period = 2, Gap = 2 \<rparr>,
       signatures = Map.empty, validatorSignatures = Map.empty,
       c_signer = addrA, signFn = Some (\<lambda>a h. Inr (sealBy a)),
       HookPenalty = None, HookPenaltyTIPSigning = None, HookVerifyMNs = None,
       HookGetSignersFromContract = None,
       snapshot = (\<lambda>chain n h ps. Inr s) \<rparr>"

definition exSnap :: SnapshotV1 where
  "exSnap = \<lparr> Signers = {addrA, addrB, addrC}, Recents = [], sigcache = Map.empty \<rparr>"


text \<open>A snapshot with the signers \<open>ss\<close> in which \<open>A\<close> signed the block \<open>seen\<close>.\<close>

definition exSnapRecent :: "address set \<Rightarrow> uint64 \<Rightarrow> SnapshotV1" where
  "exSnapRecent ss seen = \<lparr> Signers = ss, Recents = [(seen, addrA)], sigcache = Map.empty \<rparr>"

subsection \<open>Positions in a list\<close>

lemma positionFrom_range:
  "positionFrom i xs x = -1 \<or> (i \<le> positionFrom i xs x \<and> positionFrom i xs x < i + int (length xs))"
  by (induction xs arbitrary: i) (auto, force+)

lemma positionFrom_mem:
  "0 \<le> i \<Longrightarrow> (positionFrom i xs x \<noteq> -1) = (x \<in> set xs)"
proof (induction xs arbitrary: i)
  case Nil then show ?case by simp
next
  case (Cons a xs)
  have "0 \<le> i + 1" using Cons.prems by simp
  from Cons.IH[OF this] Cons.prems show ?case by auto
qed

lemma positionFrom_nth:
  "i \<le> k \<Longrightarrow> positionFrom i xs x = k \<Longrightarrow> 0 \<le> i \<Longrightarrow> nat (k - i) < length xs \<and> xs ! nat (k - i) = x"
proof (induction xs arbitrary: i)
  case Nil then show ?case by simp
next
  case (Cons a xs)
  show ?case
  proof (cases "a = x")
    case True with Cons.prems show ?thesis by simp
  next
    case False
    then have p: "positionFrom (i + 1) xs x = k" using Cons.prems by simp
    have "positionFrom (i+1) xs x = -1 \<or> i + 1 \<le> positionFrom (i+1) xs x" using positionFrom_range[of "i+1" xs x] by auto
    with p Cons.prems have le: "i + 1 \<le> k" by auto
    from Cons.IH[OF le p] Cons.prems have "nat (k - (i + 1)) < length xs \<and> xs ! nat (k - (i + 1)) = x" by simp
    moreover have "nat (k - i) = Suc (nat (k - (i + 1)))" using le by simp
    ultimately show ?thesis by simp
  qed
qed

lemma positionFrom_distinct:
  "distinct xs \<Longrightarrow> k < length xs \<Longrightarrow> positionFrom i xs (xs ! k) = i + int k"
proof (induction xs arbitrary: i k)
  case Nil then show ?case by simp
next
  case (Cons a xs)
  show ?case
  proof (cases k)
    case 0 then show ?thesis by simp
  next
    case (Suc j)
    with Cons.prems have "xs ! j \<in> set xs" "a \<notin> set xs" "j < length xs" "distinct xs" by auto
    then have "a \<noteq> xs ! j" by auto
    with Cons.IH[OF \<open>distinct xs\<close> \<open>j < length xs\<close>, of "i + 1"] Suc show ?thesis by simp
  qed
qed

lemma go_rem_nonneg: "0 \<le> a \<Longrightarrow> 0 < b \<Longrightarrow> go_rem a b = a mod b"
  by (cases "a = 0") (simp_all add: go_rem_def)

lemma position_ge: "-1 \<le> position M x"
  using positionFrom_range[of 0 M x] by (auto simp: position_def)

lemma position_lt: "position M x < int (length M)"
  using positionFrom_range[of 0 M x] by (auto simp: position_def)

lemma position_mem: "(position M x \<noteq> -1) = (x \<in> set M)"
  by (simp add: position_def positionFrom_mem)

lemma position_nth:
  assumes "0 \<le> position M x"
  shows "M ! nat (position M x) = x"
proof -
  have "positionFrom 0 M x = position M x" by (simp add: position_def)
  from positionFrom_nth[OF assms this] show ?thesis by simp
qed

lemma position_distinct: "distinct M \<Longrightarrow> k < length M \<Longrightarrow> position M (M ! k) = int k"
  by (simp add: position_def positionFrom_distinct)

lemma position_inj:
  assumes "0 \<le> position M x" and "position M x = position M y"
  shows "x = y"
proof -
  have "x = M ! nat (position M x)" using position_nth[OF assms(1)] by (rule sym)
  also have "\<dots> = M ! nat (position M y)" using assms(2) by (rule arg_cong)
  also have "\<dots> = y" using assms by (intro position_nth) simp
  finally show ?thesis .
qed

lemma YourTurn_success:
  assumes M: "GetMasternodes c chain parent = Inr M" and ne: "M \<noteq> []"
    and snap: "GetSnapshot E c chain parent = Inr snap"
    and num: "Number parent = Some num"
    and who: "Uint64 num \<noteq> 0 \<Longrightarrow> whoIsCreator E snap parent = Inr pre"
    and pre: "preIndex = (if Uint64 num = 0 then -1 else position M pre)"
  shows "YourTurn E c chain parent signer =
           Inr (int (length M), preIndex, position M signer,
                (preIndex + 1) mod int (length M) = position M signer, None)"
proof -
  have n: "0 < int (length M)" using ne by simp
  have "0 \<le> preIndex + 1" using pre position_ge[of M pre] by (simp split: if_splits)
  then have rem: "go_rem (preIndex + 1) (int (length M)) = (preIndex + 1) mod int (length M)"
    using n by (rule go_rem_nonneg)
  show ?thesis
  proof (cases "Uint64 num = 0")
    case True
    then show ?thesis using M ne snap num pre rem
      by (simp add: YourTurn_def)
  next
    case False
    then show ?thesis using M ne snap num pre rem who[OF False]
      by (simp add: YourTurn_def)
  qed
qed

lemma turn_unique:
  assumes d: "distinct M" and ne: "M \<noteq> []" and p: "-1 \<le> p" 
  shows "\<exists>!m. m \<in> set M \<and> (p + 1) mod int (length M) = position M m"
proof -
  let ?n = "int (length M)"
  let ?k = "nat ((p + 1) mod ?n)"
  have n: "0 < ?n" using ne by simp
  have k0: "0 \<le> (p + 1) mod ?n" using n by simp
  have k1: "(p + 1) mod ?n < ?n" using n by simp
  then have kl: "?k < length M" using k0 by linarith
  have pk: "position M (M ! ?k) = (p + 1) mod ?n"
    using position_distinct[OF d kl] k0 by simp
  show ?thesis
  proof (rule ex1I[of _ "M ! ?k"])
    show "M ! ?k \<in> set M \<and> (p + 1) mod ?n = position M (M ! ?k)" using kl pk by simp
  next
    fix m assume m: "m \<in> set M \<and> (p + 1) mod ?n = position M m"
    then have "0 \<le> position M m" using k0 by simp
    moreover have "position M m = position M (M ! ?k)" using m pk by simp
    ultimately show "m = M ! ?k" by (rule position_inj)
  qed
qed

lemma calcDifficulty_success:
  assumes M: "GetMasternodes c chain parent = Inr M" and ne: "M \<noteq> []"
    and snap: "GetSnapshot E c chain parent = Inr snap"
    and num: "Number parent = Some num"
    and who: "Uint64 num \<noteq> 0 \<Longrightarrow> whoIsCreator E snap parent = Inr pre"
    and pre: "preIndex = (if Uint64 num = 0 then -1 else position M pre)"
  shows "calcDifficulty E c chain parent signer =
           Inr (int (length M) - Hop (int (length M)) preIndex (position M signer))"
  using YourTurn_success[OF M ne snap num who pre, of signer]
  by (simp add: calcDifficulty_def)

lemma Hop_on_turn:
  assumes "0 < n" "(p + 1) mod n = cur"
  shows "Hop n p cur = 0"
proof -
  have "(cur - (p + 1)) mod n = ((p + 1) mod n - (p + 1)) mod n" using assms by simp
  also have "\<dots> = ((p + 1) - (p + 1)) mod n" by (rule mod_diff_left_eq)
  finally show ?thesis by (simp add: Hop_def)
qed

lemma Hop_off_turn:
  assumes n: "0 < n" and off: "(p + 1) mod n \<noteq> cur" and c0: "0 \<le> cur" and c1: "cur < n"
  shows "0 < Hop n p cur"
proof -
  have "0 \<le> Hop n p cur" using n by (simp add: Hop_def)
  moreover have "Hop n p cur \<noteq> 0"
  proof
    assume "Hop n p cur = 0"
    then have "(cur - (p + 1)) mod n = 0" by (simp add: Hop_def)
    then have "cur mod n = (p + 1) mod n" by (metis mod_eq_dvd_iff mod_0_imp_dvd)
    then show False using off c0 c1 by simp
  qed
  ultimately show ?thesis by simp
qed




subsection \<open>Evaluating the examples\<close>

lemma addr_length: "length addrA = 20" "length addrB = 20" "length addrC = 20"
  by (simp_all add: addrA_def addrB_def addrC_def)

lemma addr_distinct: "addrA \<noteq> addrB" "addrA \<noteq> addrC" "addrB \<noteq> addrC" "addrB \<noteq> addrA" "addrC \<noteq> addrA" "addrC \<noteq> addrB"
  by (simp_all add: addrA_def addrB_def addrC_def)

lemma exHeader_sel:
  "Number (exHeader n d ms s) = Some n"
  "Extra (exHeader n d ms s) = replicate 32 0 @ concat ms @ sealBy s"
  "Difficulty (exHeader n d ms s) = d"
  "ParentHash (exHeader n d ms s) = numHash (Some (n - 1))"
  by (simp_all add: exHeader_def)

lemma exEnv_sel:
  "headerHash exEnv h = numHash (Number h)"
  "IsTestnet exEnv = False"
  by (simp_all add: exEnv_def)

lemma exEngine_sel:
  "config (exEngine s) = \<lparr> Epoch = 900, Period = 2, Gap = 2 \<rparr>"
  "signatures (exEngine s) = Map.empty"
  "validatorSignatures (exEngine s) = Map.empty"
  "snapshot (exEngine s) chain n h ps = Inr s"
  "c_signer (exEngine s) = addrA"
  by (simp_all add: exEngine_def)

lemma exChain_sel:
  "GetHeaderByNumber (exChain ms p) n = Some (exBlockAt ms p n)"
  "GetHeader (exChain ms p) h n = Some (exBlockAt ms p n)"
  "VerifyForkHashes (exChain ms p) hdr = None"
  "ConfigXDPoS (exChain ms p) = \<lparr> Epoch = 900, Period = 2, Gap = 2 \<rparr>"
  by (simp_all add: exChain_def)

lemma exBlockAt_sel:
  "exBlockAt ms p 0 = exHeader 0 1 ms p"
  "exBlockAt ms p 1 = exHeader 1 1 [] p"
  "exBlockAt ms p 900 = exHeader 900 1 ms p"
  by (simp_all add: exBlockAt_def)

lemma ex_ecrecover:
  assumes "length s = 20"
  shows "ecrecover exEnv (exHeader n d ms s) Map.empty = Inr s"
  using assms
  by (simp add: ecrecover_def sigHash_def pubkeyAddress_def exEnv_def exHeader_def ExtraSeal_def sealBy_def)

lemma ex_masternodes0: "GetMasternodesFromCheckpointHeader (exHeader n d [] s) = Inr []" if "length s = 20"
  using that
  by (simp add: GetMasternodesFromCheckpointHeader_def exHeader_def sealBy_def go_quot_def ExtraVanity_def ExtraSeal_def AddressLength_def)

lemma ex_masternodes2:
  assumes "length a = 20" "length b = 20" "length s = 20"
  shows "GetMasternodesFromCheckpointHeader (exHeader n d [a, b] s) = Inr [a, b]"
  using assms
  by (simp add: GetMasternodesFromCheckpointHeader_def exHeader_def sealBy_def go_quot_def ExtraVanity_def ExtraSeal_def AddressLength_def upt_rec)

lemma ex_masternodes3:
  assumes "length a = 20" "length b = 20" "length c = 20" "length s = 20"
  shows "GetMasternodesFromCheckpointHeader (exHeader n d [a, b, c] s) = Inr [a, b, c]"
  using assms
  by (simp add: GetMasternodesFromCheckpointHeader_def exHeader_def sealBy_def go_quot_def ExtraVanity_def ExtraSeal_def AddressLength_def upt_rec)

lemma zeroAddress_length: "length zeroAddress = 20" by (simp add: zeroAddress_def)

lemma ex_GetMasternodes1:
  assumes "GetMasternodesFromCheckpointHeader (exHeader 0 1 ms p) = Inr ms"
  shows "GetMasternodes (exEngine s) (exChain ms p) (exHeader 1 d ms' q) = Inr ms"
  using assms
  by (simp add: GetMasternodes_def c_GetMasternodesFromCheckpointHeader_def exHeader_sel exEngine_sel
        exChain_sel exBlockAt_sel Uint64_def)

lemma ex_GetSnapshot: "GetSnapshot exEnv (exEngine s) chain (exHeader n d ms q) = Inr s"
  by (simp add: GetSnapshot_def exHeader_sel exEngine_sel)

lemma ex_whoIsCreator:
  assumes "length q = 20" "sigcache s = Map.empty"
  shows "whoIsCreator exEnv s (exHeader 1 d ms q) = Inr q"
  using assms by (simp add: whoIsCreator_def exHeader_sel Uint64_def ex_ecrecover)

subsection \<open>The leader schedule\<close>

lemma ex_position3:
  "position [addrA, addrB, addrC] addrA = 0"
  "position [addrA, addrB, addrC] addrB = 1"
  "position [addrA, addrB, addrC] addrC = 2"
  by (simp_all add: position_def addr_distinct)

lemma Uint64_1: "Uint64 1 = 1" "Uint64 1 \<noteq> 0"
  by (simp_all add: Uint64_def)

lemma ex_distinct3: "distinct [addrA, addrB, addrC]"
  by (simp add: addr_distinct)

lemma exSnap_sel: "sigcache exSnap = Map.empty" "Signers exSnap = {addrA, addrB, addrC}" "Recents exSnap = []"
  by (simp_all add: exSnap_def)

lemma ex_M3:
  assumes "length p = 20"
  shows "GetMasternodes (exEngine s) (exChain [addrA, addrB, addrC] p) (exHeader 1 d ms' q)
           = Inr [addrA, addrB, addrC]"
  by (rule ex_GetMasternodes1) (simp add: ex_masternodes3 addr_length assms)

lemma ex_M2:
  assumes "length a = 20" "length b = 20" "length p = 20"
  shows "GetMasternodes (exEngine s) (exChain [a, b] p) (exHeader 1 d ms' q) = Inr [a, b]"
  by (rule ex_GetMasternodes1) (simp add: ex_masternodes2 assms)

text \<open>
  C1, as stated, fails when the masternode list of the checkpoint header names an address
  twice: with the masternodes \<open>[A, A]\<close> and a parent sealed by \<open>A\<close>, the turn is at index 1,
  \<open>position\<close> finds \<open>A\<close> at index 0, and \<open>YourTurn\<close> reports no masternode on turn.
\<close>

theorem YourTurn_duplicate_masternodes_counterexample:
  "GetMasternodes (exEngine exSnap) (exChain [addrA, addrA] addrA) (exHeader 1 1 [] addrA)
     = Inr [addrA, addrA]
   \<and> YourTurn exEnv (exEngine exSnap) (exChain [addrA, addrA] addrA) (exHeader 1 1 [] addrA) addrA
     = Inr (2, 0, 0, False, None)"
proof -
  have M: "GetMasternodes (exEngine exSnap) (exChain [addrA, addrA] addrA) (exHeader 1 1 [] addrA)
             = Inr [addrA, addrA]"
    by (rule ex_M2) (simp_all add: addr_length)
  have who: "Uint64 1 \<noteq> 0 \<Longrightarrow> whoIsCreator exEnv exSnap (exHeader 1 1 [] addrA) = Inr addrA"
    by (simp add: ex_whoIsCreator addr_length exSnap_sel)
  have "YourTurn exEnv (exEngine exSnap) (exChain [addrA, addrA] addrA) (exHeader 1 1 [] addrA) addrA
          = Inr (int (length [addrA, addrA]), position [addrA, addrA] addrA,
                 position [addrA, addrA] addrA,
                 (position [addrA, addrA] addrA + 1) mod int (length [addrA, addrA])
                   = position [addrA, addrA] addrA, None)"
    by (rule YourTurn_success[OF M _ ex_GetSnapshot _ who, where num = 1])
       (simp_all add: exHeader_sel Uint64_1)
  then show ?thesis using M by (simp add: position_def)
qed

text \<open>
  C1 (amended): when the masternodes \<open>M\<close> of the parent's checkpoint header are not empty,
  the snapshot at the parent is there and the creator of a non-genesis parent is recovered,
  \<open>YourTurn\<close> returns \<open>(|M|, pre_index, cur_index, ok, nil)\<close> where \<open>ok\<close> holds if and only if
  \<open>(pre_index + 1) mod |M| = cur_index\<close>, with \<open>pre_index = -1\<close> for the genesis parent; and
  when no address occurs twice in \<open>M\<close>, exactly one \<open>m\<close> in \<open>M\<close> is on turn.
\<close>

theorem YourTurn_turn_rule:
  assumes M: "GetMasternodes c chain parent = Inr M" and ne: "M \<noteq> []"
    and snap: "GetSnapshot E c chain parent = Inr snap"
    and num: "Number parent = Some num"
    and who: "Uint64 num \<noteq> 0 \<Longrightarrow> whoIsCreator E snap parent = Inr pre"
    and pre: "preIndex = (if Uint64 num = 0 then -1 else position M pre)"
  shows "YourTurn E c chain parent signer =
           Inr (int (length M), preIndex, position M signer,
                (preIndex + 1) mod int (length M) = position M signer, None)
         \<and> (distinct M \<longrightarrow>
              (\<exists>!m. m \<in> set M \<and>
                 YourTurn E c chain parent m =
                   Inr (int (length M), preIndex, position M m, True, None)))"
proof (intro conjI impI)
  show "YourTurn E c chain parent signer =
           Inr (int (length M), preIndex, position M signer,
                (preIndex + 1) mod int (length M) = position M signer, None)"
    by (rule YourTurn_success[OF M ne snap num who pre])
next
  assume d: "distinct M"
  have p: "-1 \<le> preIndex" using pre position_ge[of M pre] by (simp split: if_splits)
  have yt: "\<And>m. YourTurn E c chain parent m = Inr (int (length M), preIndex, position M m, True, None)
              \<longleftrightarrow> (preIndex + 1) mod int (length M) = position M m"
    using YourTurn_success[OF M ne snap num who pre] by simp
  show "\<exists>!m. m \<in> set M \<and>
          YourTurn E c chain parent m = Inr (int (length M), preIndex, position M m, True, None)"
    using turn_unique[OF d ne p] by (simp only: yt)
qed

theorem YourTurn_turn_rule_witness:
  "YourTurn exEnv (exEngine exSnap) (exChain [addrA, addrB, addrC] addrA) (exHeader 1 1 [] addrA) addrB
     = Inr (3, 0, 1, True, None)
   \<and> (\<exists>!m. m \<in> set [addrA, addrB, addrC] \<and>
        YourTurn exEnv (exEngine exSnap) (exChain [addrA, addrB, addrC] addrA) (exHeader 1 1 [] addrA) m
          = Inr (3, 0, position [addrA, addrB, addrC] m, True, None))"
proof -
  have M3: "GetMasternodes (exEngine exSnap) (exChain [addrA, addrB, addrC] addrA) (exHeader 1 1 [] addrA)
              = Inr [addrA, addrB, addrC]"
    by (rule ex_M3) (simp add: addr_length)
  have who: "Uint64 1 \<noteq> 0 \<Longrightarrow> whoIsCreator exEnv exSnap (exHeader 1 1 [] addrA) = Inr addrA"
    by (simp add: ex_whoIsCreator addr_length exSnap_sel)
  have pre: "(0::int) = (if Uint64 1 = 0 then -1 else position [addrA, addrB, addrC] addrA)"
    by (simp add: Uint64_1 ex_position3)
  have num: "Number (exHeader 1 1 [] addrA) = Some 1" by (simp add: exHeader_sel)
  note t = YourTurn_turn_rule[OF M3 _ ex_GetSnapshot num who pre, where signer = addrB]
  show ?thesis using t ex_distinct3 by (simp add: ex_position3)
qed

lemma ex_position2:
  "position [addrA, addrB] addrA = 0"
  "position [addrA, addrB] addrB = 1"
  "position [addrA, addrB] addrC = -1"
  by (simp_all add: position_def addr_distinct)

text \<open>
  C3, as stated, fails for an off-turn signer that is no masternode: with the masternodes
  \<open>[A, B]\<close> and a parent sealed by \<open>A\<close>, \<open>B\<close> is on turn with difficulty 2, and the address
  \<open>C\<close>, which \<open>YourTurn\<close> reports off turn at index -1, gets the difficulty 2 as well.
\<close>

theorem calcDifficulty_non_member_counterexample:
  "YourTurn exEnv (exEngine exSnap) (exChain [addrA, addrB] addrA) (exHeader 1 1 [] addrA) addrB
     = Inr (2, 0, 1, True, None)
   \<and> YourTurn exEnv (exEngine exSnap) (exChain [addrA, addrB] addrA) (exHeader 1 1 [] addrA) addrC
     = Inr (2, 0, -1, False, None)
   \<and> calcDifficulty exEnv (exEngine exSnap) (exChain [addrA, addrB] addrA) (exHeader 1 1 [] addrA) addrB
     = Inr 2
   \<and> calcDifficulty exEnv (exEngine exSnap) (exChain [addrA, addrB] addrA) (exHeader 1 1 [] addrA) addrC
     = Inr 2"
proof -
  have M: "GetMasternodes (exEngine exSnap) (exChain [addrA, addrB] addrA) (exHeader 1 1 [] addrA)
             = Inr [addrA, addrB]"
    by (rule ex_M2) (simp_all add: addr_length)
  have who: "Uint64 1 \<noteq> 0 \<Longrightarrow> whoIsCreator exEnv exSnap (exHeader 1 1 [] addrA) = Inr addrA"
    by (simp add: ex_whoIsCreator addr_length exSnap_sel)
  have pre: "(0::int) = (if Uint64 1 = 0 then -1 else position [addrA, addrB] addrA)"
    by (simp add: Uint64_1 ex_position2)
  have num: "Number (exHeader 1 1 [] addrA) = Some 1" by (simp add: exHeader_sel)
  note y = YourTurn_success[OF M _ ex_GetSnapshot num who pre]
  note d = calcDifficulty_success[OF M _ ex_GetSnapshot num who pre]
  show ?thesis
    using y[where signer = addrB] y[where signer = addrC] d[where signer = addrB] d[where signer = addrC]
    by (simp add: ex_position2 Hop_def)
qed

text \<open>
  C3 (amended): when \<open>YourTurn\<close> succeeds (masternodes \<open>M\<close> not empty, snapshot there,
  creator of a non-genesis parent recovered), \<open>calcDifficulty\<close> returns
  \<open>|M| - hop(|M|, pre_index, cur_index)\<close>, and for one parent the difficulty of the on-turn
  signer strictly exceeds the difficulty of every off-turn signer that is one of the
  masternodes \<open>M\<close>. (\<open>Hop\<close> is modelled from the spec.)
\<close>

theorem calcDifficulty_ordering:
  assumes M: "GetMasternodes c chain parent = Inr M" and ne: "M \<noteq> []"
    and snap: "GetSnapshot E c chain parent = Inr snap"
    and num: "Number parent = Some num"
    and who: "Uint64 num \<noteq> 0 \<Longrightarrow> whoIsCreator E snap parent = Inr pre"
    and pre: "preIndex = (if Uint64 num = 0 then -1 else position M pre)"
  shows "calcDifficulty E c chain parent signer =
           Inr (int (length M) - Hop (int (length M)) preIndex (position M signer))
         \<and> (YourTurn E c chain parent s =
               Inr (int (length M), preIndex, position M s, True, None) \<longrightarrow>
            s' \<in> set M \<longrightarrow>
            YourTurn E c chain parent s' =
               Inr (int (length M), preIndex, position M s', False, None) \<longrightarrow>
            (\<exists>d d'. calcDifficulty E c chain parent s = Inr d
                  \<and> calcDifficulty E c chain parent s' = Inr d' \<and> d' < d))"
proof (intro conjI impI)
  show "calcDifficulty E c chain parent signer =
           Inr (int (length M) - Hop (int (length M)) preIndex (position M signer))"
    by (rule calcDifficulty_success[OF M ne snap num who pre])
next
  assume on: "YourTurn E c chain parent s = Inr (int (length M), preIndex, position M s, True, None)"
    and mem: "s' \<in> set M"
    and off: "YourTurn E c chain parent s' = Inr (int (length M), preIndex, position M s', False, None)"
  have n: "0 < int (length M)" using ne by simp
  have on': "(preIndex + 1) mod int (length M) = position M s"
    using on YourTurn_success[OF M ne snap num who pre, of s] by simp
  have off': "(preIndex + 1) mod int (length M) \<noteq> position M s'"
    using off YourTurn_success[OF M ne snap num who pre, of s'] by simp
  have c0: "0 \<le> position M s'"
    using mem position_mem[of M s'] position_ge[of M s'] by linarith
  have h0: "Hop (int (length M)) preIndex (position M s) = 0"
    by (rule Hop_on_turn[OF n on'])
  have h1: "0 < Hop (int (length M)) preIndex (position M s')"
    by (rule Hop_off_turn[OF n off' c0 position_lt])
  show "\<exists>d d'. calcDifficulty E c chain parent s = Inr d
            \<and> calcDifficulty E c chain parent s' = Inr d' \<and> d' < d"
    using calcDifficulty_success[OF M ne snap num who pre, of s]
      calcDifficulty_success[OF M ne snap num who pre, of s'] h0 h1
    by simp
qed

theorem calcDifficulty_ordering_witness:
  "calcDifficulty exEnv (exEngine exSnap) (exChain [addrA, addrB, addrC] addrA) (exHeader 1 1 [] addrA) addrB
     = Inr 3
   \<and> calcDifficulty exEnv (exEngine exSnap) (exChain [addrA, addrB, addrC] addrA) (exHeader 1 1 [] addrA) addrC
     = Inr 2
   \<and> addrC \<in> set [addrA, addrB, addrC]
   \<and> (\<exists>d d'. calcDifficulty exEnv (exEngine exSnap) (exChain [addrA, addrB, addrC] addrA)
                (exHeader 1 1 [] addrA) addrB = Inr d
           \<and> calcDifficulty exEnv (exEngine exSnap) (exChain [addrA, addrB, addrC] addrA)
                (exHeader 1 1 [] addrA) addrC = Inr d' \<and> d' < d)"
proof -
  have M3: "GetMasternodes (exEngine exSnap) (exChain [addrA, addrB, addrC] addrA) (exHeader 1 1 [] addrA)
              = Inr [addrA, addrB, addrC]"
    by (rule ex_M3) (simp add: addr_length)
  have who: "Uint64 1 \<noteq> 0 \<Longrightarrow> whoIsCreator exEnv exSnap (exHeader 1 1 [] addrA) = Inr addrA"
    by (simp add: ex_whoIsCreator addr_length exSnap_sel)
  have pre: "(0::int) = (if Uint64 1 = 0 then -1 else position [addrA, addrB, addrC] addrA)"
    by (simp add: Uint64_1 ex_position3)
  have num: "Number (exHeader 1 1 [] addrA) = Some 1" by (simp add: exHeader_sel)
  note y = YourTurn_success[OF M3 _ ex_GetSnapshot num who pre]
  have yB: "YourTurn exEnv (exEngine exSnap) (exChain [addrA, addrB, addrC] addrA) (exHeader 1 1 [] addrA) addrB
     = Inr (int (length [addrA, addrB, addrC]), 0, position [addrA, addrB, addrC] addrB, True, None)"
    using y[where signer = addrB] by (simp add: ex_position3)
  have yC: "YourTurn exEnv (exEngine exSnap) (exChain [addrA, addrB, addrC] addrA) (exHeader 1 1 [] addrA) addrC
     = Inr (int (length [addrA, addrB, addrC]), 0, position [addrA, addrB, addrC] addrC, False, None)"
    using y[where signer = addrC] by (simp add: ex_position3)
  note t = calcDifficulty_ordering[OF M3 _ ex_GetSnapshot num who pre]
  have tB: "calcDifficulty exEnv (exEngine exSnap) (exChain [addrA, addrB, addrC] addrA) (exHeader 1 1 [] addrA) addrB
     = Inr 3"
    using t[where signer = addrB] by (simp add: ex_position3 Hop_def)
  have tC: "calcDifficulty exEnv (exEngine exSnap) (exChain [addrA, addrB, addrC] addrA) (exHeader 1 1 [] addrA) addrC
     = Inr 2"
    using t[where signer = addrC] by (simp add: ex_position3 Hop_def)
  show ?thesis using tB tC by simp
qed



subsection \<open>The signing hash\<close>



subsection \<open>Verifying a header\<close>

lemma verifyHeader_front:
  assumes "Number h = Some num"
    and "\<not> ((fullVerify \<and> \<not> IsTestnet E) \<and> Uint64 num > Epoch (config c) \<and> length (Validator h) = 0)"
    and "\<not> ((fullVerify \<and> \<not> IsTestnet E) \<and> Time h > now E)"
    and "Epoch (config c) \<noteq> 0"
  shows "verifyHeader E c chain h parents fullVerify =
     (if Uint64 num mod Epoch (config c) = 0 \<and> Coinbase h \<noteq> zeroAddress
         then Some ErrInvalidCheckpointBeneficiary
         else if Nonce h \<noteq> NonceAuthVote \<and> Nonce h \<noteq> NonceDropVote
         then Some ErrInvalidVote
         else if Uint64 num mod Epoch (config c) = 0 \<and> Nonce h \<noteq> NonceDropVote
         then Some ErrInvalidCheckpointVote
         else if length (Extra h) < ExtraVanity
         then Some ErrMissingVanity
         else if length (Extra h) < ExtraVanity + ExtraSeal
         then Some ErrMissingSignature
         else if \<not> Uint64 num mod Epoch (config c) = 0
                 \<and> length (Extra h) - ExtraVanity - ExtraSeal \<noteq> 0
         then Some ErrExtraSigners
         else if Uint64 num mod Epoch (config c) = 0
                 \<and> (length (Extra h) - ExtraVanity - ExtraSeal) mod AddressLength \<noteq> 0
         then Some ErrInvalidCheckpointSigners
         else if MixDigest h \<noteq> zeroHash
         then Some ErrInvalidMixDigest
         else if UncleHash h \<noteq> EmptyUncleHash E
         then Some ErrInvalidUncleHash
         else (case VerifyForkHashes chain h of
                 Some err \<Rightarrow> Some err
               | None \<Rightarrow> verifyCascadingFields E c chain h parents (fullVerify \<and> \<not> IsTestnet E)))"
proof -
  have a: "((fullVerify \<and> \<not> IsTestnet E) \<and> Uint64 num > Epoch (config c) \<and> length (Validator h) = 0) = False"
    using assms(2) by simp
  have b: "((fullVerify \<and> \<not> IsTestnet E) \<and> Time h > now E) = False"
    using assms(3) by simp
  show ?thesis
    unfolding verifyHeader_def assms(1) option.case a b if_False
    using assms(4) by simp
qed

lemma Uint64_900: "Uint64 900 = 900" "Uint64 0 = 0" "Uint64 901 = 901"
  by (simp_all add: Uint64_def)

lemma replicate_unfold: "replicate 8 x = x # replicate 7 x" "replicate 20 x = x # replicate 19 x"
  by (simp_all add: numeral_eq_Suc)

lemma zeroAddress_snoc: "zeroAddress = replicate 19 0 @ [0]"
  by (simp add: zeroAddress_def replicate_unfold replicate_append_same)

lemma addr_nonzero: "addrA \<noteq> zeroAddress" "addrB \<noteq> zeroAddress" "addrC \<noteq> zeroAddress"
  by (simp_all add: zeroAddress_snoc addrA_def addrB_def addrC_def)

lemma nonce_neq: "NonceAuthVote \<noteq> NonceDropVote" "1 # replicate 7 0 \<noteq> NonceDropVote"
  "1 # replicate 7 0 \<noteq> NonceAuthVote"
  by (simp_all add: NonceAuthVote_def NonceDropVote_def replicate_unfold)

lemma exEngine_Epoch: "Epoch (config (exEngine s)) = 900" "Period (config (exEngine s)) = 2"
  by (simp_all add: exEngine_sel)

text \<open>
  C6, as stated, fails for a checkpoint header whose nonce is neither the authorize-vote
  nor the drop-vote nonce: the check of the vote comes first and rejects it with
  \<open>ErrInvalidVote\<close>.
\<close>

theorem verifyHeader_checkpoint_vote_counterexample:
  "Uint64 900 mod Epoch (config (exEngine exSnap)) = 0
   \<and> Nonce ((exHeader 900 1 [] addrA)\<lparr>Nonce := 1 # replicate 7 0\<rparr>) \<noteq> NonceDropVote
   \<and> verifyHeader exEnv (exEngine exSnap) (exChain [] addrA)
        ((exHeader 900 1 [] addrA)\<lparr>Nonce := 1 # replicate 7 0\<rparr>) [] False
      = Some ErrInvalidVote"
proof -
  have "verifyHeader exEnv (exEngine exSnap) (exChain [] addrA)
        ((exHeader 900 1 [] addrA)\<lparr>Nonce := 1 # replicate 7 0\<rparr>) [] False
      = Some ErrInvalidVote"
    by (subst verifyHeader_front[where num = 900])
       (simp_all add: exHeader_def exEngine_Epoch Uint64_900 nonce_neq)
  then show ?thesis by (simp add: exEngine_Epoch Uint64_900 nonce_neq)
qed

text \<open>
  C6 (amended): for a header that passes the checks of full verification (or is verified
  without it), each error is returned when no earlier check of \<open>verifyHeader\<close> rejects the
  header. At a checkpoint height: \<open>ErrInvalidCheckpointBeneficiary\<close> for a non-zero
  coinbase; with a zero coinbase, \<open>ErrInvalidCheckpointVote\<close> for the authorize-vote nonce
  (and \<open>ErrInvalidVote\<close> for a nonce that is neither vote); with the drop-vote nonce and an
  extra-data of at least 97 bytes, \<open>ErrInvalidCheckpointSigners\<close> when the section between
  vanity and seal is no whole number of 20-byte addresses. Off the checkpoints, with a vote
  nonce and an extra-data of at least 97 bytes, \<open>ErrExtraSigners\<close> when that section is not
  empty.
\<close>

theorem verifyHeader_checkpoint_rules:
  assumes num: "Number h = Some num"
    and nv: "\<not> ((fullVerify \<and> \<not> IsTestnet E) \<and> Uint64 num > Epoch (config c) \<and> length (Validator h) = 0)"
    and nf: "\<not> ((fullVerify \<and> \<not> IsTestnet E) \<and> Time h > now E)"
    and ep: "Epoch (config c) \<noteq> 0"
  shows "(Uint64 num mod Epoch (config c) = 0 \<and> Coinbase h \<noteq> zeroAddress \<longrightarrow>
            verifyHeader E c chain h parents fullVerify = Some ErrInvalidCheckpointBeneficiary)
       \<and> (Uint64 num mod Epoch (config c) = 0 \<and> Coinbase h = zeroAddress
            \<and> Nonce h = NonceAuthVote \<longrightarrow>
            verifyHeader E c chain h parents fullVerify = Some ErrInvalidCheckpointVote)
       \<and> (Uint64 num mod Epoch (config c) = 0 \<and> Coinbase h = zeroAddress
            \<and> Nonce h \<noteq> NonceAuthVote \<and> Nonce h \<noteq> NonceDropVote \<longrightarrow>
            verifyHeader E c chain h parents fullVerify = Some ErrInvalidVote)
       \<and> (Uint64 num mod Epoch (config c) = 0 \<and> Coinbase h = zeroAddress
            \<and> Nonce h = NonceDropVote \<and> ExtraVanity + ExtraSeal \<le> length (Extra h)
            \<and> (length (Extra h) - ExtraVanity - ExtraSeal) mod AddressLength \<noteq> 0 \<longrightarrow>
            verifyHeader E c chain h parents fullVerify = Some ErrInvalidCheckpointSigners)
       \<and> (Uint64 num mod Epoch (config c) \<noteq> 0
            \<and> (Nonce h = NonceAuthVote \<or> Nonce h = NonceDropVote)
            \<and> ExtraVanity + ExtraSeal \<le> length (Extra h)
            \<and> length (Extra h) - ExtraVanity - ExtraSeal \<noteq> 0 \<longrightarrow>
            verifyHeader E c chain h parents fullVerify = Some ErrExtraSigners)"
  unfolding verifyHeader_front[OF num nv nf ep]
  using nonce_neq(1) by (auto simp: ExtraVanity_def ExtraSeal_def)

theorem verifyHeader_checkpoint_rules_witness:
  "verifyHeader exEnv (exEngine exSnap) (exChain [] addrA)
     ((exHeader 900 1 [] addrA)\<lparr>Coinbase := addrB\<rparr>) [] False
     = Some ErrInvalidCheckpointBeneficiary
   \<and> verifyHeader exEnv (exEngine exSnap) (exChain [] addrA)
     ((exHeader 900 1 [] addrA)\<lparr>Nonce := NonceAuthVote\<rparr>) [] False
     = Some ErrInvalidCheckpointVote
   \<and> verifyHeader exEnv (exEngine exSnap) (exChain [] addrA)
     ((exHeader 900 1 [] addrA)\<lparr>Nonce := 1 # replicate 7 0\<rparr>) [] False
     = Some ErrInvalidVote
   \<and> verifyHeader exEnv (exEngine exSnap) (exChain [] addrA)
     ((exHeader 900 1 [[7, 7, 7]] addrA)) [] False
     = Some ErrInvalidCheckpointSigners
   \<and> verifyHeader exEnv (exEngine exSnap) (exChain [] addrA)
     ((exHeader 901 1 [addrB] addrA)) [] False
     = Some ErrExtraSigners"
proof -
  have fv: "\<And>P. \<not> ((False \<and> \<not> IsTestnet exEnv) \<and> P)" by simp
  have ep: "Epoch (config (exEngine exSnap)) \<noteq> 0" by (simp add: exEngine_Epoch)
  have n1: "Number ((exHeader 900 1 [] addrA)\<lparr>Coinbase := addrB\<rparr>) = Some 900"
    and n2: "Number ((exHeader 900 1 [] addrA)\<lparr>Nonce := NonceAuthVote\<rparr>) = Some 900"
    and n3: "Number ((exHeader 900 1 [] addrA)\<lparr>Nonce := 1 # replicate 7 0\<rparr>) = Some 900"
    and n4: "Number (exHeader 900 1 [[7, 7, 7]] addrA) = Some 900"
    and n5: "Number (exHeader 901 1 [addrB] addrA) = Some 901"
    by (simp_all add: exHeader_def)
  have z: "addrB \<noteq> zeroAddress" by (rule addr_nonzero)
  have w: "(901::uint64) mod 900 \<noteq> 0" by simp
  have c1: "verifyHeader exEnv (exEngine exSnap) (exChain [] addrA)
     ((exHeader 900 1 [] addrA)\<lparr>Coinbase := addrB\<rparr>) [] False
     = Some ErrInvalidCheckpointBeneficiary"
    using verifyHeader_checkpoint_rules[OF n1 fv fv ep, where chain = "exChain [] addrA" and parents = "[]"] z
    by (simp add: exHeader_def exEngine_Epoch Uint64_900)
  have c2: "verifyHeader exEnv (exEngine exSnap) (exChain [] addrA)
     ((exHeader 900 1 [] addrA)\<lparr>Nonce := NonceAuthVote\<rparr>) [] False
     = Some ErrInvalidCheckpointVote"
    using verifyHeader_checkpoint_rules[OF n2 fv fv ep, where chain = "exChain [] addrA" and parents = "[]"]
    by (simp add: exHeader_def exEngine_Epoch Uint64_900)
  have c3: "verifyHeader exEnv (exEngine exSnap) (exChain [] addrA)
     ((exHeader 900 1 [] addrA)\<lparr>Nonce := 1 # replicate 7 0\<rparr>) [] False
     = Some ErrInvalidVote"
    using verifyHeader_checkpoint_rules[OF n3 fv fv ep, where chain = "exChain [] addrA" and parents = "[]"]
    by (simp add: exHeader_def exEngine_Epoch Uint64_900 nonce_neq)
  have c4: "verifyHeader exEnv (exEngine exSnap) (exChain [] addrA)
     ((exHeader 900 1 [[7, 7, 7]] addrA)) [] False
     = Some ErrInvalidCheckpointSigners"
    using verifyHeader_checkpoint_rules[OF n4 fv fv ep, where chain = "exChain [] addrA" and parents = "[]"]
    by (simp add: exHeader_def exEngine_Epoch Uint64_900 sealBy_def addr_length
          ExtraVanity_def ExtraSeal_def AddressLength_def)
  have c5: "verifyHeader exEnv (exEngine exSnap) (exChain [] addrA)
     ((exHeader 901 1 [addrB] addrA)) [] False
     = Some ErrExtraSigners"
    using verifyHeader_checkpoint_rules[OF n5 fv fv ep, where chain = "exChain [] addrA" and parents = "[]"] w
    by (simp add: exHeader_def exEngine_Epoch Uint64_900 sealBy_def addr_length
          ExtraVanity_def ExtraSeal_def AddressLength_def)
  show ?thesis using c1 c2 c3 c4 c5 by simp
qed

text \<open>
  C7, as stated, fails without full verification: the clock is read only when
  \<open>fullVerify\<close> is set. The genesis header with a timestamp in the future is accepted.
\<close>

theorem verifyHeader_future_counterexample:
  "Time ((exHeader 0 1 [] addrA)\<lparr>Time := 2000\<rparr>) > now exEnv
   \<and> verifyHeader exEnv (exEngine exSnap) (exChain [] addrA)
        ((exHeader 0 1 [] addrA)\<lparr>Time := 2000\<rparr>) [] False = None"
proof -
  have "verifyHeader exEnv (exEngine exSnap) (exChain [] addrA)
        ((exHeader 0 1 [] addrA)\<lparr>Time := 2000\<rparr>) [] False = None"
    by (subst verifyHeader_front[where num = 0])
       (simp_all add: exHeader_def exEngine_Epoch Uint64_900 NonceDropVote_def NonceAuthVote_def
          sealBy_def addr_length ExtraVanity_def ExtraSeal_def AddressLength_def
          exEnv_def exChain_def verifyCascadingFields_def)
  then show ?thesis by (simp add: exEnv_def)
qed

text \<open>
  C7 (amended): under full verification, off the testnet, a header that has a number and is
  not rejected for a missing validator signature (number above \<open>Epoch\<close> with an empty
  \<open>Validator\<close>) is rejected with \<open>ErrFutureBlock\<close> when its timestamp is in the future.
\<close>

theorem verifyHeader_future_block:
  assumes "Number h = Some num" and "fullVerify" and "\<not> IsTestnet E"
    and "\<not> (Uint64 num > Epoch (config c) \<and> length (Validator h) = 0)"
    and "Time h > now E"
  shows "verifyHeader E c chain h parents fullVerify = Some ErrFutureBlock"
  using assms by (simp add: verifyHeader_def)

theorem verifyHeader_future_block_witness:
  "Time ((exHeader 1 1 [] addrA)\<lparr>Time := 2000\<rparr>) > now exEnv
   \<and> verifyHeader exEnv (exEngine exSnap) (exChain [] addrA)
        ((exHeader 1 1 [] addrA)\<lparr>Time := 2000\<rparr>) [] True = Some ErrFutureBlock"
proof -
  have n: "Number ((exHeader 1 1 [] addrA)\<lparr>Time := 2000\<rparr>) = Some 1" by (simp add: exHeader_def)
  have t: "Time ((exHeader 1 1 [] addrA)\<lparr>Time := 2000\<rparr>) > now exEnv"
    by (simp add: exHeader_def exEnv_def)
  have tn: "\<not> IsTestnet exEnv" by (simp add: exEnv_sel)
  have v: "\<not> (Uint64 1 > Epoch (config (exEngine exSnap))
              \<and> length (Validator ((exHeader 1 1 [] addrA)\<lparr>Time := 2000\<rparr>)) = 0)"
    by (simp add: exEngine_Epoch Uint64_1)
  show ?thesis using verifyHeader_future_block[OF n TrueI tn v t] t by simp
qed

subsection \<open>Verifying the seal\<close>

lemma verifySeal_reach:
  assumes num: "Number h = Some num" and nz: "Uint64 num \<noteq> 0"
    and snap: "snapshot c chain (Uint64 num - 1) (ParentHash h) parents = Inr snap"
    and cr: "ecrecover E h (signatures c) = Inr creator"
    and par: "(if parents \<noteq> [] then Some (last parents)
               else GetHeader chain (ParentHash h) (Uint64 num - 1)) = Some parent"
    and diff: "calcDifficulty E c chain parent creator = Inr difficulty"
    and deq: "Int64 (Difficulty h) = Int64 difficulty"
    and M: "GetMasternodes c chain h = Inr M"
    and auth: "creator \<in> Signers snap \<or> creator \<in> set M"
  shows "verifySeal E c chain h parents fullVerify =
     (if length M > 1 \<and> recentlySigned (Recents snap) creator (Uint64 num) (Epoch (config c))
      then Some ErrUnauthorized
      else if Uint64 num > Epoch (config c) \<and> fullVerify
      then (case RecoverValidator E c h of
              Inl err \<Rightarrow> Some err
            | Inr validator \<Rightarrow>
               (case GetValidator E c creator chain h of
                  Inl err \<Rightarrow> Some err
                | Inr assignedValidator \<Rightarrow>
                   if validator \<noteq> assignedValidator then Some ErrFailedDoubleValidation
                   else None))
      else None)"
proof -
  have a: "(creator \<notin> Signers snap \<and> creator \<notin> set M) = False" using auth by auto
  show ?thesis
    unfolding verifySeal_def num option.case snap cr par diff deq M sum.case a if_False
    using nz by simp
qed

lemma recentlySigned_mem:
  assumes "(seen, creator) \<in> set rs" and "seen > number - 2" and "number mod epoch \<noteq> 0"
  shows "recentlySigned rs creator number epoch"
  using assms by (induction rs) auto

lemma recentlySigned_boundary:
  assumes "number mod epoch = 0"
  shows "\<not> recentlySigned rs creator number epoch"
proof (induction rs)
  case Nil
  show ?case by simp
next
  case (Cons a rs)
  obtain seen recent where a: "a = (seen, recent)" by (cases a)
  have "recentlySigned (a # rs) creator number epoch = recentlySigned rs creator number epoch"
    unfolding a recentlySigned.simps assms by simp
  then show ?case using Cons.IH by simp
qed

lemma exBlockAt_masternodes:
  assumes "k mod 900 = 0"
  shows "GetMasternodesFromCheckpointHeader (exBlockAt ms p k)
           = GetMasternodesFromCheckpointHeader (exHeader 0 1 ms p)"
  using assms by (simp add: GetMasternodesFromCheckpointHeader_def exBlockAt_def exHeader_def)

lemma ex_GetMasternodes_off:
  assumes "Uint64 n mod 900 \<noteq> 0"
    and "(Uint64 n - Uint64 n mod 900) mod 900 = 0"
    and "GetMasternodesFromCheckpointHeader (exHeader 0 1 ms p) = Inr ms"
  shows "GetMasternodes (exEngine s) (exChain ms p) (exHeader n d ms' q) = Inr ms"
  using assms
  by (simp add: GetMasternodes_def c_GetMasternodesFromCheckpointHeader_def exHeader_sel exEngine_sel
        exChain_sel exBlockAt_masternodes)

lemma ex_GetMasternodes_on:
  assumes "Uint64 n mod 900 = 0"
    and "GetMasternodesFromCheckpointHeader (exHeader 0 1 ms' q) = Inr ms'"
  shows "GetMasternodes (exEngine s) (exChain ms p) (exHeader n d ms' q) = Inr ms'"
proof -
  have "GetMasternodesFromCheckpointHeader (exHeader n d ms' q)
          = GetMasternodesFromCheckpointHeader (exHeader 0 1 ms' q)"
    by (simp add: GetMasternodesFromCheckpointHeader_def exHeader_def)
  then show ?thesis using assms
    by (simp add: GetMasternodes_def c_GetMasternodesFromCheckpointHeader_def exHeader_sel exEngine_sel)
qed

lemma ex_whoIsCreator_n:
  assumes "length q = 20" "sigcache s = Map.empty" "Uint64 n \<noteq> 0"
  shows "whoIsCreator exEnv s (exHeader n d ms q) = Inr q"
  using assms by (simp add: whoIsCreator_def exHeader_sel ex_ecrecover)

lemma ex_masternodes1:
  assumes "length a = 20" "length s = 20"
  shows "GetMasternodesFromCheckpointHeader (exHeader n d [a] s) = Inr [a]"
  using assms
  by (simp add: GetMasternodesFromCheckpointHeader_def exHeader_def sealBy_def go_quot_def
        ExtraVanity_def ExtraSeal_def AddressLength_def upt_rec)

lemma Uint64_2: "Uint64 2 = 2" "Uint64 2 \<noteq> 0" "Uint64 901 \<noteq> 0" "Uint64 900 \<noteq> 0"
  by (simp_all add: Uint64_def)

lemma Int64_small: "Int64 1 = 1" "Int64 2 = 2" "Int64 3 = 3"
  by (simp_all add: Int64_def)

lemma exSnapRecent_sel:
  "sigcache (exSnapRecent ss seen) = Map.empty" "Signers (exSnapRecent ss seen) = ss"
  "Recents (exSnapRecent ss seen) = [(seen, addrA)]"
  by (simp_all add: exSnapRecent_def)

lemma ex_position1: "position [addrA] addrA = 0"
  by (simp add: position_def)

lemma w2: "(Uint64 2 - Uint64 2 mod 900) mod 900 = 0" "Uint64 2 mod 900 \<noteq> 0"
  "(Uint64 1 - Uint64 1 mod 900) mod 900 = 0" "Uint64 1 mod 900 \<noteq> 0"
  "Uint64 2 - 1 = 1"
  by (simp_all add: Uint64_def)

text \<open>
  The block 2 sealed by \<open>A\<close> on top of the block 1 sealed by \<open>A\<close>, with the masternodes \<open>ms\<close>
  and \<open>A\<close> among the recent signers at block 1: what \<open>verifySeal\<close> reaches.
\<close>

lemma ex_block2_reach:
  assumes ms: "GetMasternodesFromCheckpointHeader (exHeader 0 1 ms addrA) = Inr ms"
    and ne: "ms \<noteq> []" and pos: "position ms addrA = 0"
    and d: "d = int (length ms) - Hop (int (length ms)) 0 0"
    and small: "Int64 d = d"
  shows "verifySeal exEnv (exEngine (exSnapRecent ss 1)) (exChain ms addrA) (exHeader 2 d [] addrA) [] fv =
     (if addrA \<notin> ss \<and> addrA \<notin> set ms then Some ErrUnauthorized
      else if length ms > 1 then Some ErrUnauthorized else None)"
proof -
  let ?c = "exEngine (exSnapRecent ss 1)" and ?ch = "exChain ms addrA"
  have M1: "GetMasternodes ?c ?ch (exHeader 1 1 [] addrA) = Inr ms"
    by (rule ex_GetMasternodes_off) (simp_all add: w2 ms)
  have M2: "GetMasternodes ?c ?ch (exHeader 2 d [] addrA) = Inr ms"
    by (rule ex_GetMasternodes_off) (simp_all add: w2 ms)
  have who: "Uint64 1 \<noteq> 0 \<Longrightarrow> whoIsCreator exEnv (exSnapRecent ss 1) (exHeader 1 1 [] addrA) = Inr addrA"
    by (simp add: ex_whoIsCreator addr_length exSnapRecent_sel)
  have pre: "(0::int) = (if Uint64 1 = 0 then -1 else position ms addrA)"
    by (simp add: Uint64_1 pos)
  have num1: "Number (exHeader 1 1 [] addrA) = Some 1" by (simp add: exHeader_sel)
  have diff: "calcDifficulty exEnv ?c ?ch (exHeader 1 1 [] addrA) addrA = Inr d"
    using calcDifficulty_success[OF M1 ne ex_GetSnapshot num1 who pre, of addrA] by (simp add: pos d)
  have rs: "recentlySigned [(1, addrA)] addrA (Uint64 2) 900"
    by (simp add: Uint64_def)
  show ?thesis
    unfolding verifySeal_def
    by (simp add: exHeader_sel Uint64_2 w2 exEngine_sel ex_ecrecover addr_length exChain_sel
          exBlockAt_sel diff small M2 exSnapRecent_sel rs)
qed

text \<open>
  C5, as stated, fails when there is one masternode: the recency rule is applied only for
  more than one. With the masternodes \<open>[A]\<close>, the block 2 sealed by \<open>A\<close> is accepted though
  \<open>A\<close> is in the recents at block 1 and 1 > 2 - 2.
\<close>

theorem verifySeal_single_masternode_counterexample:
  "ecrecover exEnv (exHeader 2 1 [] addrA) (signatures (exEngine (exSnapRecent {addrA} 1))) = Inr addrA
   \<and> (1, addrA) \<in> set (Recents (exSnapRecent {addrA} 1))
   \<and> (1::uint64) > Uint64 2 - 2
   \<and> Uint64 2 mod Epoch (config (exEngine (exSnapRecent {addrA} 1))) \<noteq> 0
   \<and> verifySeal exEnv (exEngine (exSnapRecent {addrA} 1)) (exChain [addrA] addrA)
        (exHeader 2 1 [] addrA) [] True = None"
proof -
  have "verifySeal exEnv (exEngine (exSnapRecent {addrA} 1)) (exChain [addrA] addrA)
        (exHeader 2 1 [] addrA) [] True = None"
    by (subst ex_block2_reach)
       (simp_all add: ex_masternodes1 addr_length ex_position1 Hop_def Int64_small)
  then show ?thesis
    by (simp add: ex_ecrecover addr_length exEngine_sel exSnapRecent_sel Uint64_2 w2)
qed

text \<open>
  C5 (amended): for every header with number at least 2 that reaches the recency rule of
  \<open>verifySeal\<close> (snapshot there, creator recovered, difficulty right, creator authorized),
  with more than one masternode, whose creator appears in the recents of the snapshot at a
  key \<open>seen > number - 2\<close>, \<open>verifySeal\<close> returns \<open>ErrUnauthorized\<close>, except on an epoch
  boundary (\<open>number mod Epoch = 0\<close>), where the recents reject nothing.
\<close>

theorem verifySeal_recency_rule:
  assumes num: "Number h = Some num" and nz: "Uint64 num \<noteq> 0"
    and snap: "snapshot c chain (Uint64 num - 1) (ParentHash h) parents = Inr snap"
    and cr: "ecrecover E h (signatures c) = Inr creator"
    and par: "(if parents \<noteq> [] then Some (last parents)
               else GetHeader chain (ParentHash h) (Uint64 num - 1)) = Some parent"
    and diff: "calcDifficulty E c chain parent creator = Inr difficulty"
    and deq: "Int64 (Difficulty h) = Int64 difficulty"
    and M: "GetMasternodes c chain h = Inr M"
    and auth: "creator \<in> Signers snap \<or> creator \<in> set M"
  shows "(1 < length M \<and> (seen, creator) \<in> set (Recents snap) \<and> 2 \<le> Uint64 num
            \<and> seen > Uint64 num - 2 \<and> Uint64 num mod Epoch (config c) \<noteq> 0 \<longrightarrow>
            verifySeal E c chain h parents fullVerify = Some ErrUnauthorized)
       \<and> (Uint64 num mod Epoch (config c) = 0 \<longrightarrow>
            verifySeal E c chain h parents fullVerify =
              (if Uint64 num > Epoch (config c) \<and> fullVerify
               then (case RecoverValidator E c h of
                       Inl err \<Rightarrow> Some err
                     | Inr validator \<Rightarrow>
                        (case GetValidator E c creator chain h of
                           Inl err \<Rightarrow> Some err
                         | Inr assignedValidator \<Rightarrow>
                            if validator \<noteq> assignedValidator then Some ErrFailedDoubleValidation
                            else None))
               else None))"
proof (intro conjI impI)
  assume a: "1 < length M \<and> (seen, creator) \<in> set (Recents snap) \<and> 2 \<le> Uint64 num
            \<and> seen > Uint64 num - 2 \<and> Uint64 num mod Epoch (config c) \<noteq> 0"
  then have "recentlySigned (Recents snap) creator (Uint64 num) (Epoch (config c))"
    by (intro recentlySigned_mem[of seen]) simp_all
  then show "verifySeal E c chain h parents fullVerify = Some ErrUnauthorized"
    using a by (simp add: verifySeal_reach[OF num nz snap cr par diff deq M auth])
next
  assume b: "Uint64 num mod Epoch (config c) = 0"
  have nr: "\<not> recentlySigned (Recents snap) creator (Uint64 num) (Epoch (config c))"
    by (rule recentlySigned_boundary[OF b])
  show "verifySeal E c chain h parents fullVerify =
              (if Uint64 num > Epoch (config c) \<and> fullVerify
               then (case RecoverValidator E c h of
                       Inl err \<Rightarrow> Some err
                     | Inr validator \<Rightarrow>
                        (case GetValidator E c creator chain h of
                           Inl err \<Rightarrow> Some err
                         | Inr assignedValidator \<Rightarrow>
                            if validator \<noteq> assignedValidator then Some ErrFailedDoubleValidation
                            else None))
               else None)"
    using nr by (simp add: verifySeal_reach[OF num nz snap cr par diff deq M auth])
qed

lemma w900: "(Uint64 899 - Uint64 899 mod 900) mod 900 = 0" "Uint64 899 mod 900 \<noteq> 0"
  "Uint64 900 mod 900 = 0" "Uint64 900 - 1 = 899" "Uint64 899 \<noteq> 0" "uint (899 :: uint64) = 899"
  "(899 :: uint64) mod 900 \<noteq> 0" "(899 :: uint64) > Uint64 900 - 2" "(1 :: uint64) > Uint64 2 - 2"
  "2 \<le> Uint64 2"
  by (simp_all add: Uint64_def)

theorem verifySeal_recency_rule_witness:
  "verifySeal exEnv (exEngine (exSnapRecent {addrA, addrB, addrC} 1)) (exChain [addrA, addrB, addrC] addrA)
     (exHeader 2 1 [] addrA) [] True = Some ErrUnauthorized
   \<and> verifySeal exEnv (exEngine (exSnapRecent {addrA, addrB, addrC} 899))
       (exChain [addrA, addrB, addrC] addrA) (exHeader 900 1 [addrA, addrB, addrC] addrA) [] True = None"
proof -
  let ?ms = "[addrA, addrB, addrC]"
  let ?ch = "exChain ?ms addrA"
  have ms: "GetMasternodesFromCheckpointHeader (exHeader 0 1 ?ms addrA) = Inr ?ms"
    by (simp add: ex_masternodes3 addr_length)
  have ne: "?ms \<noteq> []" by simp
  have pre: "\<And>k. Uint64 k \<noteq> 0 \<Longrightarrow> (0::int) = (if Uint64 k = 0 then -1 else position ?ms addrA)"
    by (simp add: ex_position3)
  have dval: "int (length ?ms) - Hop (int (length ?ms)) 0 (position ?ms addrA) = 1"
    by (simp add: ex_position3 Hop_def)
  \<comment> \<open>the block 2 on top of the block 1\<close>
  let ?c = "exEngine (exSnapRecent {addrA, addrB, addrC} 1)"
  have M1: "GetMasternodes ?c ?ch (exHeader 1 1 [] addrA) = Inr ?ms"
    by (rule ex_GetMasternodes_off) (simp_all add: w2 ms)
  have who1: "Uint64 1 \<noteq> 0 \<Longrightarrow>
      whoIsCreator exEnv (exSnapRecent {addrA, addrB, addrC} 1) (exHeader 1 1 [] addrA) = Inr addrA"
    by (simp add: ex_whoIsCreator addr_length exSnapRecent_sel)
  have num1: "Number (exHeader 1 1 [] addrA) = Some 1" by (simp add: exHeader_sel)
  have diff2: "calcDifficulty exEnv ?c ?ch (exHeader 1 1 [] addrA) addrA = Inr 1"
    using calcDifficulty_success[OF M1 ne ex_GetSnapshot num1 who1 pre[OF Uint64_1(2)], of addrA] dval
    by simp
  have num2: "Number (exHeader 2 1 [] addrA) = Some 2" by (simp add: exHeader_sel)
  have snap2: "snapshot ?c ?ch (Uint64 2 - 1) (ParentHash (exHeader 2 1 [] addrA)) []
                 = Inr (exSnapRecent {addrA, addrB, addrC} 1)"
    by (simp add: exEngine_sel)
  have cr2: "ecrecover exEnv (exHeader 2 1 [] addrA) (signatures ?c) = Inr addrA"
    by (simp add: exEngine_sel ex_ecrecover addr_length)
  have par2: "(if ([]::header list) \<noteq> [] then Some (last [])
               else GetHeader ?ch (ParentHash (exHeader 2 1 [] addrA)) (Uint64 2 - 1))
              = Some (exHeader 1 1 [] addrA)"
    by (simp add: exChain_sel w2 exBlockAt_sel)
  have deq2: "Int64 (Difficulty (exHeader 2 1 [] addrA)) = Int64 1" by (simp add: exHeader_sel)
  have M2: "GetMasternodes ?c ?ch (exHeader 2 1 [] addrA) = Inr ?ms"
    by (rule ex_GetMasternodes_off) (simp_all add: w2 ms)
  have auth2: "addrA \<in> Signers (exSnapRecent {addrA, addrB, addrC} 1) \<or> addrA \<in> set ?ms"
    by (simp add: exSnapRecent_sel)
  note t2 = verifySeal_recency_rule[OF num2 Uint64_2(2) snap2 cr2 par2 diff2 deq2 M2 auth2,
              where seen = 1 and fullVerify = True, THEN conjunct1]
  have r2: "verifySeal exEnv ?c ?ch (exHeader 2 1 [] addrA) [] True = Some ErrUnauthorized"
    by (rule t2[rule_format]) (simp add: exSnapRecent_sel Uint64_2 exEngine_Epoch)
  \<comment> \<open>the checkpoint block 900 on top of the block 899\<close>
  let ?d = "exEngine (exSnapRecent {addrA, addrB, addrC} 899)"
  have P: "exBlockAt ?ms addrA 899 = exHeader 899 1 [] addrA"
    by (simp add: exBlockAt_def)
  have M899: "GetMasternodes ?d ?ch (exHeader 899 1 [] addrA) = Inr ?ms"
    by (rule ex_GetMasternodes_off) (simp_all add: w900 ms)
  have who899: "Uint64 899 \<noteq> 0 \<Longrightarrow>
      whoIsCreator exEnv (exSnapRecent {addrA, addrB, addrC} 899) (exHeader 899 1 [] addrA) = Inr addrA"
    by (simp add: ex_whoIsCreator_n addr_length exSnapRecent_sel)
  have num899: "Number (exHeader 899 1 [] addrA) = Some 899" by (simp add: exHeader_sel)
  have diff900: "calcDifficulty exEnv ?d ?ch (exHeader 899 1 [] addrA) addrA = Inr 1"
    using calcDifficulty_success[OF M899 ne ex_GetSnapshot num899 who899 pre[OF w900(5)], of addrA] dval
    by simp
  have num900: "Number (exHeader 900 1 ?ms addrA) = Some 900" by (simp add: exHeader_sel)
  have snap900: "snapshot ?d ?ch (Uint64 900 - 1) (ParentHash (exHeader 900 1 ?ms addrA)) []
                 = Inr (exSnapRecent {addrA, addrB, addrC} 899)"
    by (simp add: exEngine_sel)
  have cr900: "ecrecover exEnv (exHeader 900 1 ?ms addrA) (signatures ?d) = Inr addrA"
    by (simp add: exEngine_sel ex_ecrecover addr_length)
  have par900: "(if ([]::header list) \<noteq> [] then Some (last [])
               else GetHeader ?ch (ParentHash (exHeader 900 1 ?ms addrA)) (Uint64 900 - 1))
              = Some (exHeader 899 1 [] addrA)"
    by (simp add: exChain_sel w900 P)
  have deq900: "Int64 (Difficulty (exHeader 900 1 ?ms addrA)) = Int64 1" by (simp add: exHeader_sel)
  have M900: "GetMasternodes ?d ?ch (exHeader 900 1 ?ms addrA) = Inr ?ms"
    by (rule ex_GetMasternodes_on) (simp_all add: w900 ms)
  have auth900: "addrA \<in> Signers (exSnapRecent {addrA, addrB, addrC} 899) \<or> addrA \<in> set ?ms"
    by (simp add: exSnapRecent_sel)
  note t900 = verifySeal_recency_rule[OF num900 Uint64_2(4) snap900 cr900 par900 diff900 deq900 M900
                auth900, where seen = 899 and fullVerify = True, THEN conjunct2]
  have r900: "verifySeal exEnv ?d ?ch (exHeader 900 1 ?ms addrA) [] True = None"
    using t900 by (simp add: w900 exEngine_Epoch Uint64_900)
  show ?thesis using r2 r900 by simp
qed

subsection \<open>Double validation\<close>









subsection \<open>The fallback to the signers of the contract\<close>
















lemma ex_position2': "position [addrA, addrB] addrB = 1" "position [addrA, addrB] addrA = 0"
  by (simp_all add: ex_position2)











subsection \<open>Sealing and cancellation\<close>





end
